theory Spec2Isabelle
  imports Complex_Main "HOL-Library.AList"
begin

section \<open>Conventions of the embedding\<close>

text \<open>
  The debug-intelligence server is written in TypeScript. Its four engines are embedded
  as follows.
  \<^item> A JavaScript \<open>Map\<close> keeps insertion order and replaces the value of an existing key in
    place; it is an association list read with \<open>map_of\<close>, written with \<open>AList.update\<close>
    and shrunk with \<open>AList.delete\<close>.
  \<^item> Objects that the source mutates in place while they sit in a \<open>Map\<close> are written back
    under their key.
  \<^item> JavaScript numbers are exact reals (counters are naturals); rounding of IEEE doubles
    is not modelled.
  \<^item> \<open>new Date()\<close> and \<open>Date.now()\<close> are an argument \<open>now\<close>, in milliseconds since the
    epoch; an ISO date string is represented by the instant it denotes.
  \<^item> Values of type \<open>any\<close> that come out of a JSON document have optional fields
    (\<open>None\<close> is \<open>undefined\<close>), and the operator \<open>||\<close> follows JavaScript truthiness.
\<close>

type_synonym timestamp = nat

section \<open>Result cache (intelligence-cache.ts)\<close>

text \<open>A \<open>fix_template\<close> of a discovered pattern is untyped: absent, a string or a list.\<close>

datatype jsval = JUndefined | JStr string | JArr "string list"

record CachedSolution =
  pattern_id :: string
  solution_text :: jsval
  confidence_score :: real
  success_rate :: real
  applicable_repos :: "string list"
  fix_templates :: "jsval list"
  prevention_strategies :: "string list"
  cached_date :: timestamp
  usage_count :: nat
  last_accessed :: timestamp

record CacheStatistics =
  total_cached_solutions :: nat
  cache_hit_rate :: real
  total_api_calls_saved :: nat
  estimated_cost_savings :: real

text \<open>
  The cache object. \<open>cacheFiles\<close> is the directory of one JSON file per pattern;
  \<open>fsWritable\<close> says for which file names \<open>fs.writeJson\<close> succeeds (a failed write is
  caught and only logged).
\<close>

record ErrorIntelligenceCache =
  solutionCache :: "(string \<times> CachedSolution) list"
  cacheStats :: CacheStatistics
  cacheHits :: nat
  cacheMisses :: nat
  cacheFiles :: "string \<rightharpoonup> CachedSolution"
  fsWritable :: "string \<Rightarrow> bool"

text \<open>
  An element of \<open>patterns\<close> or \<open>novel_insights\<close> in an analysis result: an untyped JSON
  object, of which the cache reads these fields.
\<close>

record Finding =
  f_pattern_id :: "string option"
  f_pattern_type :: "string option"
  f_type :: "string option"
  f_root_cause :: "string option"
  f_insight :: "string option"
  f_error_message :: "string option"
  f_repo_context :: "string option"
  f_confidence :: "real option"
  f_applicable_repos :: "string list option"
  f_fix_template :: jsval
  f_prevention_strategy :: "string option"
  f_implementation_steps :: "string list option"
  f_prevention_recommendations :: "string list option"

text \<open>JavaScript truthiness and \<open>a || b\<close> on the field types above.\<close>

fun truthy_str :: "string option \<Rightarrow> bool" where
  "truthy_str None = False"
| "truthy_str (Some s) = (s \<noteq> [])"

fun truthy_num :: "real option \<Rightarrow> bool" where
  "truthy_num None = False"
| "truthy_num (Some x) = (x \<noteq> 0)"

fun truthy_jsval :: "jsval \<Rightarrow> bool" where
  "truthy_jsval JUndefined = False"
| "truthy_jsval (JStr s) = (s \<noteq> [])"
| "truthy_jsval (JArr xs) = True"

definition or_str :: "string option \<Rightarrow> string option \<Rightarrow> string option" where
  "or_str a b = (if truthy_str a then a else b)"

definition or_num :: "real option \<Rightarrow> real \<Rightarrow> real" where
  "or_num a d = (if truthy_num a then the a else d)"

definition or_list :: "'a list option \<Rightarrow> 'a list \<Rightarrow> 'a list" where
  "or_list a d = (case a of None \<Rightarrow> d | Some xs \<Rightarrow> xs)"

definition saveSolutionToFile :: "CachedSolution \<Rightarrow> ErrorIntelligenceCache \<Rightarrow> ErrorIntelligenceCache" where
  "saveSolutionToFile solution c =
     (if fsWritable c (pattern_id solution)
      then c\<lparr>cacheFiles := (cacheFiles c)(pattern_id solution \<mapsto> solution)\<rparr>
      else c)"

definition getCachedSolution ::
  "string \<Rightarrow> timestamp \<Rightarrow> ErrorIntelligenceCache \<Rightarrow> CachedSolution option \<times> ErrorIntelligenceCache" where
  "getCachedSolution patternId now c =
     (case map_of (solutionCache c) patternId of
        Some cached \<Rightarrow>
          (let cached' = cached\<lparr>usage_count := usage_count cached + 1, last_accessed := now\<rparr>;
               c' = c\<lparr>solutionCache := AList.update patternId cached' (solutionCache c),
                      cacheHits := cacheHits c + 1\<rparr>
           in (Some cached', saveSolutionToFile cached' c'))
      | None \<Rightarrow> (None, c\<lparr>cacheMisses := cacheMisses c + 1\<rparr>))"

definition cacheSolution :: "CachedSolution \<Rightarrow> ErrorIntelligenceCache \<Rightarrow> ErrorIntelligenceCache" where
  "cacheSolution solution c =
     saveSolutionToFile solution
       (c\<lparr>solutionCache := AList.update (pattern_id solution) solution (solutionCache c)\<rparr>)"

text \<open>
  \<open>generatePatternId\<close> hashes \<open>JSON.stringify\<close> of three fields with MD5 and keeps twelve
  hexadecimal digits. The two library functions together are the parameter \<open>digest\<close>.
\<close>

type_synonym id_digest = "string option \<times> string option \<times> jsval \<Rightarrow> string"

definition id_context :: "Finding \<Rightarrow> jsval" where
  "id_context p =
     (if truthy_str (f_repo_context p) then JStr (the (f_repo_context p))
      else case f_applicable_repos p of None \<Rightarrow> JUndefined | Some rs \<Rightarrow> JArr rs)"

definition generatePatternId :: "id_digest \<Rightarrow> Finding \<Rightarrow> string" where
  "generatePatternId digest p =
     ''pattern_'' @ digest
       (or_str (f_pattern_type p) (f_type p),
        or_str (f_root_cause p) (or_str (f_insight p) (f_error_message p)),
        id_context p)"

definition updateCacheStatistics :: "ErrorIntelligenceCache \<Rightarrow> ErrorIntelligenceCache" where
  "updateCacheStatistics c =
     (let totalRequests = cacheHits c + cacheMisses c;
          hitRate = (if totalRequests > 0
                     then (real (cacheHits c) / real totalRequests) * 100 else 0)
      in c\<lparr>cacheStats :=
            \<lparr>total_cached_solutions = length (solutionCache c),
             cache_hit_rate = real_of_int (round (hitRate * 100)) / 100,
             total_api_calls_saved = cacheHits c,
             estimated_cost_savings = real (cacheHits c) * 0.05\<rparr>\<rparr>)"

definition solution_of_pattern :: "id_digest \<Rightarrow> timestamp \<Rightarrow> Finding \<Rightarrow> CachedSolution" where
  "solution_of_pattern digest now pattern =
     \<lparr>pattern_id = (if truthy_str (f_pattern_id pattern) then the (f_pattern_id pattern)
                    else generatePatternId digest pattern),
      solution_text = (if truthy_jsval (f_fix_template pattern) then f_fix_template pattern
                       else JStr ''General debugging guidance''),
      confidence_score = or_num (f_confidence pattern) 70,
      success_rate = 85,
      applicable_repos = or_list (f_applicable_repos pattern) [''all''],
      fix_templates = (case f_fix_template pattern of
                         JArr xs \<Rightarrow> map JStr xs
                       | v \<Rightarrow> [v]),
      prevention_strategies = (if truthy_str (f_prevention_strategy pattern)
                               then [the (f_prevention_strategy pattern)] else []),
      cached_date = now,
      usage_count = 0,
      last_accessed = now\<rparr>"

definition solution_of_insight :: "id_digest \<Rightarrow> timestamp \<Rightarrow> Finding \<Rightarrow> CachedSolution" where
  "solution_of_insight digest now insight =
     \<lparr>pattern_id = generatePatternId digest insight,
      solution_text = (if truthy_str (f_insight insight) then JStr (the (f_insight insight))
                       else JStr ''Novel debugging insight''),
      confidence_score = or_num (f_confidence insight) 75,
      success_rate = 80,
      applicable_repos = or_list (f_applicable_repos insight) [''all''],
      fix_templates = map JStr (or_list (f_implementation_steps insight) []),
      prevention_strategies = or_list (f_prevention_recommendations insight) [],
      cached_date = now,
      usage_count = 0,
      last_accessed = now\<rparr>"

text \<open>The two \<open>for\<close> loops of \<open>cacheAnalysisResults\<close>, then the statistics.\<close>

definition cacheAnalysisResults ::
  "id_digest \<Rightarrow> timestamp \<Rightarrow> Finding list option \<Rightarrow> Finding list option \<Rightarrow>
   ErrorIntelligenceCache \<Rightarrow> ErrorIntelligenceCache" where
  "cacheAnalysisResults digest now patterns novel_insights c =
     (let c1 = fold (\<lambda>pattern. cacheSolution (solution_of_pattern digest now pattern))
                 (or_list patterns []) c;
          c2 = fold (\<lambda>insight. cacheSolution (solution_of_insight digest now insight))
                 (or_list novel_insights []) c1
      in updateCacheStatistics c2)"

definition updateSolutionEffectiveness ::
  "string \<Rightarrow> bool \<Rightarrow> timestamp \<Rightarrow> ErrorIntelligenceCache \<Rightarrow> ErrorIntelligenceCache" where
  "updateSolutionEffectiveness patternId wasSuccessful now c =
     (case map_of (solutionCache c) patternId of
        Some solution \<Rightarrow>
          (let weight = 0.1;
               newSuccessRate = (if wasSuccessful then 100 else 0);
               s1 = solution\<lparr>success_rate :=
                      (success_rate solution * (1 - weight)) + (newSuccessRate * weight)\<rparr>;
               s2 = (if wasSuccessful
                     then s1\<lparr>confidence_score := min 100 (confidence_score s1 + 2)\<rparr>
                     else s1\<lparr>confidence_score := max 50 (confidence_score s1 - 5)\<rparr>);
               s3 = s2\<lparr>last_accessed := now\<rparr>
           in saveSolutionToFile s3
                (c\<lparr>solutionCache := AList.update patternId s3 (solutionCache c)\<rparr>))
      | None \<Rightarrow> c)"

section \<open>Strings\<close>

text \<open>
  Strings are lists of bytes, so that \<open>length\<close> is JavaScript's \<open>.length\<close> and
  \<open>Buffer.from\<close> is the identity on ASCII text, which is what the embedding covers.
\<close>

text \<open>
  Case folding of ASCII: the letters A to Z are the bytes 0x41 to 0x5A, that is, bit 6
  set, bits 5 and 7 clear and the low five bits from 1 to 26; folding sets bit 5.
\<close>

definition lower_char :: "char \<Rightarrow> char" where
  "lower_char c =
     (case c of Char b0 b1 b2 b3 b4 b5 b6 b7 \<Rightarrow>
        if b6 \<and> \<not> b5 \<and> \<not> b7 \<and> (b0 \<or> b1 \<or> b2 \<or> b3 \<or> b4)
           \<and> \<not> (b4 \<and> b3 \<and> (b2 \<or> (b1 \<and> b0)))
        then Char b0 b1 b2 b3 b4 True b6 b7
        else c)"

definition toLowerCase :: "string \<Rightarrow> string" where
  "toLowerCase s = map lower_char s"

fun str_includes :: "string \<Rightarrow> string \<Rightarrow> bool" where
  "str_includes [] sub = (sub = [])"
| "str_includes (c # cs) sub = (take (length sub) (c # cs) = sub \<or> str_includes cs sub)"

fun dec :: "nat \<Rightarrow> string" where
  "dec n = (if n < 10 then [char_of (48 + n)] else dec (n div 10) @ [char_of (48 + n mod 10)])"

declare dec.simps [simp del]

definition b64_alphabet :: string where
  "b64_alphabet = ''ABCDEFGHIJKLMNOPQRSTUVWXYZabcdefghijklmnopqrstuvwxyz0123456789+/''"

definition b64_char :: "nat \<Rightarrow> char" where
  "b64_char n = b64_alphabet ! (n mod 64)"

fun base64 :: "nat list \<Rightarrow> string" where
  "base64 (a # b # c # rest) =
     (let n = a * 65536 + b * 256 + c
      in [b64_char (n div 262144), b64_char (n div 4096), b64_char (n div 64), b64_char n])
     @ base64 rest"
| "base64 [a, b] =
     (let n = a * 65536 + b * 256
      in [b64_char (n div 262144), b64_char (n div 4096), b64_char (n div 64), CHR ''=''])"
| "base64 [a] =
     (let n = a * 65536
      in [b64_char (n div 262144), b64_char (n div 4096), CHR ''='', CHR ''=''])"
| "base64 [] = []"

section \<open>Processing scheduler (processing-scheduler.ts)\<close>

record ErrorContext =
  error_message :: string
  stack_trace :: "string option"
  repo_context :: string
  environment_info :: "(string \<times> string) list option"

datatype priority = Low | Medium | High | Critical

record QueuedError =
  error_id :: string
  error_context :: ErrorContext
  priority :: priority
  queued_at :: timestamp
  estimated_cost :: real
  retry_count :: nat

record QueueResult =
  position :: nat
  estimated_time :: string
  cost_estimate :: real

record StrategicProcessingScheduler =
  errorQueue :: "(string \<times> QueuedError) list"

record BudgetCheck =
  can_proceed :: bool
  remaining_budget :: real
  calls_made_today :: nat

definition dailyBudgetLimit :: real where
  "dailyBudgetLimit = 0.83"

fun priorityWeights :: "priority \<Rightarrow> nat" where
  "priorityWeights Critical = 100"
| "priorityWeights High = 75"
| "priorityWeights Medium = 50"
| "priorityWeights Low = 25"

definition env_environment :: "ErrorContext \<Rightarrow> string option" where
  "env_environment e = (case environment_info e of None \<Rightarrow> None | Some env \<Rightarrow> map_of env ''environment'')"

definition isProductionError :: "ErrorContext \<Rightarrow> bool" where
  "isProductionError e \<longleftrightarrow>
     env_environment e = Some ''production''
     \<or> str_includes (toLowerCase (error_message e)) ''production''"

definition isSecurityError :: "ErrorContext \<Rightarrow> bool" where
  "isSecurityError e \<longleftrightarrow>
     list_ex (\<lambda>keyword. str_includes (toLowerCase (error_message e)) keyword)
       [''permission denied'', ''unauthorized'', ''authentication'', ''security'']"

definition isBuildError :: "ErrorContext \<Rightarrow> bool" where
  "isBuildError e \<longleftrightarrow>
     str_includes (toLowerCase (error_message e)) ''build''
     \<or> str_includes (toLowerCase (error_message e)) ''compilation''"

definition isAPIError :: "ErrorContext \<Rightarrow> bool" where
  "isAPIError e \<longleftrightarrow>
     str_includes (toLowerCase (error_message e)) ''api''
     \<or> str_includes (toLowerCase (error_message e)) ''http''
     \<or> str_includes (toLowerCase (error_message e)) ''request''"

definition isDevelopmentError :: "ErrorContext \<Rightarrow> bool" where
  "isDevelopmentError e \<longleftrightarrow> env_environment e = Some ''development''"

definition isTestError :: "ErrorContext \<Rightarrow> bool" where
  "isTestError e \<longleftrightarrow>
     str_includes (toLowerCase (error_message e)) ''test''
     \<or> (case stack_trace e of None \<Rightarrow> False | Some st \<Rightarrow> str_includes (toLowerCase st) ''test'')"

definition determinePriority :: "ErrorContext \<Rightarrow> priority" where
  "determinePriority e =
     (if isProductionError e \<or> isSecurityError e then Critical
      else if isBuildError e \<or> isAPIError e then High
      else if isDevelopmentError e \<or> isTestError e then Medium
      else Low)"

definition estimateProcessingCost :: "ErrorContext \<Rightarrow> real" where
  "estimateProcessingCost e =
     (let baseCost = 0.05;
          baseCost = (case stack_trace e of
                        Some st \<Rightarrow> if st \<noteq> [] \<and> length st > 1000 then baseCost + 0.02 else baseCost
                      | None \<Rightarrow> baseCost);
          baseCost = (case environment_info e of
                        Some env \<Rightarrow> if length env > 5 then baseCost + 0.01 else baseCost
                      | None \<Rightarrow> baseCost)
      in baseCost)"

text \<open>
  The identifier is the first twelve characters of the Base64 text of
  \<open>message_repo_now\<close>.
\<close>

definition generateErrorId :: "timestamp \<Rightarrow> ErrorContext \<Rightarrow> string" where
  "generateErrorId now e =
     (let content = error_message e @ ''_'' @ repo_context e @ ''_'' @ dec now
      in ''error_'' @ take 12 (base64 (map of_char content)))"

definition calculateQueuePosition :: "StrategicProcessingScheduler \<Rightarrow> QueuedError \<Rightarrow> nat" where
  "calculateQueuePosition sch error =
     (let sameOrHigherPriority =
            filter (\<lambda>queued. priorityWeights (priority queued) \<ge> priorityWeights (priority error))
              (map snd (errorQueue sch))
      in length sameOrHigherPriority)"

fun multipliers :: "priority \<Rightarrow> real" where
  "multipliers Critical = 0.1"
| "multipliers High = 0.5"
| "multipliers Medium = 1.0"
| "multipliers Low = 2.0"

definition estimateProcessingTime :: "nat \<Rightarrow> priority \<Rightarrow> string" where
  "estimateProcessingTime pos prio =
     (let baseTime = pos * 30;
          estimatedMinutes = round (real baseTime * multipliers prio)
      in if estimatedMinutes < 60 then dec (nat estimatedMinutes) @ '' minutes''
         else if estimatedMinutes < 1440
           then dec (nat (round (real_of_int estimatedMinutes / 60))) @ '' hours''
         else dec (nat (round (real_of_int estimatedMinutes / 1440))) @ '' days'')"

definition new_queuedError :: "timestamp \<Rightarrow> ErrorContext \<Rightarrow> QueuedError" where
  "new_queuedError now errorContext =
     \<lparr>error_id = generateErrorId now errorContext, error_context = errorContext,
      priority = determinePriority errorContext, queued_at = now,
      estimated_cost = estimateProcessingCost errorContext, retry_count = 0\<rparr>"

definition queueForClaudeAnalysis ::
  "timestamp \<Rightarrow> ErrorContext \<Rightarrow> StrategicProcessingScheduler \<Rightarrow>
   QueueResult \<times> StrategicProcessingScheduler" where
  "queueForClaudeAnalysis now errorContext sch =
     (let queuedError = new_queuedError now errorContext;
          sch' = sch\<lparr>errorQueue := AList.update (error_id queuedError) queuedError (errorQueue sch)\<rparr>;
          pos = calculateQueuePosition sch' queuedError;
          estimatedTime = estimateProcessingTime pos (priority queuedError)
      in (\<lparr>position = pos, estimated_time = estimatedTime,
           cost_estimate = estimated_cost queuedError\<rparr>,
          sch'))"

text \<open>Today's spending and call count are fixed placeholders in the source.\<close>

definition calculateTodaySpending :: real where
  "calculateTodaySpending = 0.25"

definition getTodayCallCount :: nat where
  "getTodayCallCount = 5"

definition scheduler_checkDailyBudget :: "StrategicProcessingScheduler \<Rightarrow> BudgetCheck" where
  "scheduler_checkDailyBudget sch =
     (let todaySpending = calculateTodaySpending;
          todayCalls = getTodayCallCount;
          remainingBudget = max 0 (dailyBudgetLimit - todaySpending);
          canProceed = (remainingBudget > 0.05)
      in \<lparr>can_proceed = canProceed, remaining_budget = remainingBudget,
          calls_made_today = todayCalls\<rparr>)"

text \<open>
  \<open>processBatchWithClaude\<close>. The body of its \<open>try\<close> block stands for the call of the
  analysis service; whether it raises for a batch is the parameter \<open>raises\<close>. In the
  handler every item's \<open>retry_count\<close> is incremented in place, and the item is put into
  the queue again while the count is below 3. An item that is still in the queue when
  its batch is dispatched is the very object stored there, so the increment shows in
  the queue even when the item is not put again.
\<close>

definition requeue :: "QueuedError \<Rightarrow> StrategicProcessingScheduler \<Rightarrow> StrategicProcessingScheduler" where
  "requeue queuedError sch =
     (let q' = queuedError\<lparr>retry_count := retry_count queuedError + 1\<rparr>;
          sch1 = (if map_of (errorQueue sch) (error_id q') \<noteq> None
                  then sch\<lparr>errorQueue := AList.update (error_id q') q' (errorQueue sch)\<rparr>
                  else sch)
      in if retry_count q' < 3
         then sch1\<lparr>errorQueue := AList.update (error_id q') q' (errorQueue sch1)\<rparr>
         else sch1)"

definition processBatchWithClaude ::
  "(QueuedError list \<Rightarrow> bool) \<Rightarrow> QueuedError list \<Rightarrow>
   StrategicProcessingScheduler \<Rightarrow> StrategicProcessingScheduler" where
  "processBatchWithClaude raises errorBatch sch =
     (if raises errorBatch then fold requeue errorBatch sch else sch)"

text \<open>The critical lane: oldest first, within at most 0.10 of budget, one item per call.\<close>

definition processCriticalErrors ::
  "(QueuedError list \<Rightarrow> bool) \<Rightarrow> real \<Rightarrow>
   StrategicProcessingScheduler \<Rightarrow> StrategicProcessingScheduler" where
  "processCriticalErrors raises remainingBudget sch =
     (let criticalErrors =
            sort_key queued_at
              (filter (\<lambda>error. priority error = Critical) (map snd (errorQueue sch)));
          budgetForCritical = min remainingBudget 0.10
      in fst (fold (\<lambda>error (s, processedCost).
                 if processedCost + estimated_cost error \<le> budgetForCritical
                 then (let s1 = processBatchWithClaude raises [error] s;
                           s2 = s1\<lparr>errorQueue := AList.delete (error_id error) (errorQueue s1)\<rparr>
                       in (s2, processedCost + estimated_cost error))
                 else (s, processedCost))
               criticalErrors (sch, 0)))"

section \<open>Local pattern engine (local-pattern-engine.ts)\<close>

text \<open>
  Of an \<open>ErrorPattern\<close> the fields that the engine reads are kept (the lists of causes
  and prevention strategies and the date are never read). \<open>new RegExp(signature, 'i').test\<close>
  is the parameter \<open>regex_test\<close> of the functions below. MD5 is taken to be injective:
  the key of the memo table is the hashed text itself.
\<close>

record ErrorPattern =
  ep_id :: string
  ep_type :: string
  signature :: string
  confidence_threshold :: real
  ep_fix_templates :: "string list"
  ep_success_rate :: real

record ErrorMatch =
  m_pattern_id :: string
  m_pattern_type :: string
  confidence :: real
  processing_time :: nat
  suggested_actions :: "string list"

record LocalAnalysisResult =
  la_patterns :: "ErrorPattern list"
  confidence_scores :: "real list"
  recommended_actions :: "string list"
  la_processing_time :: nat

record LocalPatternEngine =
  patterns :: "(string \<times> ErrorPattern) list"
  signatureCache :: "(string \<times> ErrorMatch) list"

type_synonym regex_test = "string \<Rightarrow> string \<Rightarrow> bool"

definition stack_or_empty :: "ErrorContext \<Rightarrow> string" where
  "stack_or_empty e = (case stack_trace e of None \<Rightarrow> [] | Some st \<Rightarrow> st)"

definition createErrorSignature :: "ErrorContext \<Rightarrow> string" where
  "createErrorSignature e = error_message e @ ''_'' @ stack_or_empty e @ ''_'' @ repo_context e"

definition calculateConfidence :: "regex_test \<Rightarrow> ErrorPattern \<Rightarrow> ErrorContext \<Rightarrow> string \<Rightarrow> real" where
  "calculateConfidence regex_test pattern errorContext combinedText =
     (let confidence = 70;
          confidence = (if regex_test (signature pattern) combinedText
                        then confidence + 20 else confidence);
          confidence =
            (if repo_context errorContext \<noteq> []
             then (let repoContext = toLowerCase (repo_context errorContext);
                       c1 = (if str_includes (ep_type pattern) ''python''
                                \<and> str_includes repoContext ''python''
                             then confidence + 10 else confidence);
                       c2 = (if str_includes (ep_type pattern) ''javascript''
                                \<and> str_includes repoContext ''node''
                             then c1 + 10 else c1);
                       c3 = (if str_includes (ep_type pattern) ''docker''
                                \<and> str_includes repoContext ''docker''
                             then c2 + 10 else c2)
                   in c3)
             else confidence)
      in min confidence 100)"

definition unmatched :: ErrorMatch where
  "unmatched =
     \<lparr>m_pattern_id = ''unknown'', m_pattern_type = ''unmatched'', confidence = 0,
      processing_time = 0,
      suggested_actions = [''Queue for Claude analysis - novel error pattern'']\<rparr>"

definition combinedText_of :: "ErrorContext \<Rightarrow> string" where
  "combinedText_of e = toLowerCase (error_message e @ '' '' @ stack_or_empty e)"

text \<open>The body of the loop over all patterns.\<close>

definition test_pattern ::
  "regex_test \<Rightarrow> nat \<Rightarrow> ErrorContext \<Rightarrow> string \<times> ErrorPattern \<Rightarrow> ErrorMatch \<Rightarrow> ErrorMatch" where
  "test_pattern regex_test elapsed errorContext entry bestMatch =
     (let patternId = fst entry; pattern = snd entry;
          combinedText = combinedText_of errorContext
      in if regex_test (signature pattern) combinedText
         then (let conf = calculateConfidence regex_test pattern errorContext combinedText
               in if conf > confidence bestMatch \<and> conf \<ge> confidence_threshold pattern
                  then \<lparr>m_pattern_id = patternId, m_pattern_type = ep_type pattern,
                        confidence = conf, processing_time = elapsed,
                        suggested_actions = ep_fix_templates pattern\<rparr>
                  else bestMatch)
         else bestMatch)"

text \<open>
  For stating what the loop computes: a pattern qualifies for an error when its signature
  matches the combined text and its confidence reaches its own threshold; \<open>match_of\<close>
  is the match that the loop builds from a pattern.
\<close>

definition qualifies :: "regex_test \<Rightarrow> ErrorContext \<Rightarrow> ErrorPattern \<Rightarrow> bool" where
  "qualifies regex_test e p \<longleftrightarrow>
     regex_test (signature p) (combinedText_of e)
     \<and> confidence_threshold p \<le> calculateConfidence regex_test p e (combinedText_of e)"

definition match_of :: "regex_test \<Rightarrow> nat \<Rightarrow> ErrorContext \<Rightarrow> string \<times> ErrorPattern \<Rightarrow> ErrorMatch" where
  "match_of regex_test elapsed e entry =
     \<lparr>m_pattern_id = fst entry, m_pattern_type = ep_type (snd entry),
      confidence = calculateConfidence regex_test (snd entry) e (combinedText_of e),
      processing_time = elapsed, suggested_actions = ep_fix_templates (snd entry)\<rparr>"

definition matchErrorPattern ::
  "regex_test \<Rightarrow> nat \<Rightarrow> ErrorContext \<Rightarrow> LocalPatternEngine \<Rightarrow>
   ErrorMatch \<times> LocalPatternEngine" where
  "matchErrorPattern regex_test elapsed errorContext eng =
     (let errorSignature = createErrorSignature errorContext
      in case map_of (signatureCache eng) errorSignature of
           Some cached \<Rightarrow> (cached\<lparr>processing_time := elapsed\<rparr>, eng)
         | None \<Rightarrow>
             (let bestMatch = fold (test_pattern regex_test elapsed errorContext)
                                (patterns eng) unmatched;
                  bestMatch = bestMatch\<lparr>processing_time := elapsed\<rparr>
              in (bestMatch,
                  eng\<lparr>signatureCache :=
                        AList.update errorSignature bestMatch (signatureCache eng)\<rparr>)))"

text \<open>\<open>[...new Set(xs)]\<close> keeps the first occurrence of every element.\<close>

definition dedupe :: "'a list \<Rightarrow> 'a list" where
  "dedupe xs = rev (remdups (rev xs))"

definition analyzeBatchLocally ::
  "regex_test \<Rightarrow> nat \<Rightarrow> ErrorContext list \<Rightarrow> LocalPatternEngine \<Rightarrow>
   LocalAnalysisResult \<times> LocalPatternEngine" where
  "analyzeBatchLocally regex_test elapsed errorBatch eng =
     (let (ps, scores, actions, eng') =
            fold (\<lambda>error (ps, scores, actions, en).
                    (let (match, en') = matchErrorPattern regex_test elapsed error en
                     in if confidence match > 70
                        then (case map_of (patterns en') (m_pattern_id match) of
                                Some pattern \<Rightarrow>
                                  (ps @ [pattern], scores @ [confidence match],
                                   actions @ suggested_actions match, en')
                              | None \<Rightarrow> (ps, scores, actions, en'))
                        else (ps, scores, actions, en')))
              errorBatch ([], [], [], eng)
      in (\<lparr>la_patterns = ps, confidence_scores = scores,
           recommended_actions = dedupe actions, la_processing_time = elapsed\<rparr>, eng'))"

text \<open>
  A matcher for signatures built from literal characters, \<open>.\<close>, \<open>.*\<close> and \<open>|\<close>, without
  regard to case: the fragment of regular expressions in which every signature of the
  built-in pattern database is written. It instantiates \<open>regex_test\<close> at concrete inputs.
\<close>

datatype rx = Lit char | Dot | DotStar

fun rx_parse :: "string \<Rightarrow> rx list" where
  "rx_parse [] = []"
| "rx_parse (c # cs) =
     (if c = CHR ''.'' then (case cs of d # ds \<Rightarrow> if d = CHR ''*'' then DotStar # rx_parse ds
                                                   else Dot # rx_parse cs
                                      | [] \<Rightarrow> [Dot])
      else Lit c # rx_parse cs)"

definition line_terminator :: "char \<Rightarrow> bool" where
  "line_terminator c \<longleftrightarrow> c = CHR 0x0A \<or> c = CHR 0x0D"

fun rx_here :: "rx list \<Rightarrow> string \<Rightarrow> bool" where
  "rx_here [] s = True"
| "rx_here (Lit c # r) [] = False"
| "rx_here (Lit c # r) (x # xs) = (lower_char x = lower_char c \<and> rx_here r xs)"
| "rx_here (Dot # r) [] = False"
| "rx_here (Dot # r) (x # xs) = (\<not> line_terminator x \<and> rx_here r xs)"
| "rx_here (DotStar # r) [] = rx_here r []"
| "rx_here (DotStar # r) (x # xs) =
     (rx_here r (x # xs) \<or> (\<not> line_terminator x \<and> rx_here (DotStar # r) xs))"

fun rx_search :: "rx list \<Rightarrow> string \<Rightarrow> bool" where
  "rx_search r [] = rx_here r []"
| "rx_search r (x # xs) = (rx_here r (x # xs) \<or> rx_search r xs)"

fun split_bar :: "string \<Rightarrow> string \<Rightarrow> string list" where
  "split_bar acc [] = [rev acc]"
| "split_bar acc (c # cs) = (if c = CHR ''|'' then rev acc # split_bar [] cs
                             else split_bar (c # acc) cs)"

definition regex_test_i :: regex_test where
  "regex_test_i sig text = list_ex (\<lambda>alt. rx_search (rx_parse alt) text) (split_bar [] sig)"

text \<open>The pattern database that \<open>initializePatternDatabase\<close> builds, in its order.\<close>

definition builtin_patterns :: "ErrorPattern list" where
  \<open>builtin_patterns =
    [\<lparr>ep_id = ''python_import_module_not_found'', ep_type = ''python_import_error'',
      signature = ''ModuleNotFoundError|ImportError.*No module named'',
      confidence_threshold = 95,
      ep_fix_templates = [''pip install {module_name}'',
        ''Add {module_name} to requirements.txt'', ''Check virtual environment activation''],
      ep_success_rate = 98\<rparr>,
     \<lparr>ep_id = ''python_fastapi_validation_error'', ep_type = ''python_api_error'',
      signature = ''ValidationError.*pydantic'',
      confidence_threshold = 92,
      ep_fix_templates = [''Add field validation: field_name: Optional[Type] = None'',
        ''Fix request data format'', ''Update Pydantic model schema''],
      ep_success_rate = 89\<rparr>,
     \<lparr>ep_id = ''python_asyncio_runtime_error'', ep_type = ''python_async_error'',
      signature = ''RuntimeError.*asyncio.*already running|cannot be called from a running event loop'',
      confidence_threshold = 94,
      ep_fix_templates = [''Replace asyncio.run(func()) with await func()'',
        ''Use asyncio.get_event_loop().run_until_complete() if needed'',
        ''Refactor to use proper async patterns''],
      ep_success_rate = 96\<rparr>,
     \<lparr>ep_id = ''js_cannot_read_property_undefined'', ep_type = ''javascript_runtime_error'',
      signature = ''Cannot read property.*of undefined|TypeError.*undefined'',
      confidence_threshold = 85,
      ep_fix_templates = [''Use optional chaining: {object}?.{property}'',
        ''Add check: if ({object}) { ... }'',
        ''Use nullish coalescing: {object} ?? defaultValue''],
      ep_success_rate = 91\<rparr>,
     \<lparr>ep_id = ''js_http_bridge_timeout'', ep_type = ''javascript_network_error'',
      signature = ''ECONNRESET|ETIMEDOUT|socket hang up'',
      confidence_threshold = 87,
      ep_fix_templates = [''Add retry mechanism with await retry(func, {retries: 3})'',
        ''Increase timeout: {timeout: 30000}'', ''Implement circuit breaker pattern''],
      ep_success_rate = 84\<rparr>,
     \<lparr>ep_id = ''js_memory_leak_growth'', ep_type = ''javascript_performance_error'',
      signature = ''JavaScript heap out of memory|FATAL ERROR.*Allocation failed'',
      confidence_threshold = 89,
      ep_fix_templates = [''Add cleanup: removeEventListener()'',
        ''Use WeakMap instead of Map'', ''Implement memory monitoring''],
      ep_success_rate = 78\<rparr>,
     \<lparr>ep_id = ''docker_port_already_in_use'', ep_type = ''docker_runtime_error'',
      signature = ''port is already allocated|bind.*address already in use'',
      confidence_threshold = 98,
      ep_fix_templates = [''docker-compose down && docker-compose up'',
        ''Change port mapping: "3001:3000"'',
        ''Kill process using port: lsof -ti:3000 | xargs kill''],
      ep_success_rate = 97\<rparr>,
     \<lparr>ep_id = ''docker_network_not_found'', ep_type = ''docker_network_error'',
      signature = ''network.*not found|failed to create network'',
      confidence_threshold = 94,
      ep_fix_templates = [''docker network create {network_name}'',
        ''Add to docker-compose: networks: {network_name}: external: true'',
        ''Restart docker daemon if needed''],
      ep_success_rate = 93\<rparr>,
     \<lparr>ep_id = ''docker_volume_mount_failed'', ep_type = ''docker_filesystem_error'',
      signature = ''invalid mount config|bind source path does not exist'',
      confidence_threshold = 91,
      ep_fix_templates = [''Create source directory: mkdir -p {source_path}'',
        ''Fix permissions: chmod 755 {source_path}'',
        ''Use named volume: volumes: {volume_name}:''],
      ep_success_rate = 88\<rparr>,
     \<lparr>ep_id = ''git_merge_conflict'', ep_type = ''git_merge_error'',
      signature = ''CONFLICT.*Merge conflict|Automatic merge failed'',
      confidence_threshold = 96,
      ep_fix_templates = [''git status to see conflicted files'',
        ''Edit files to resolve <<<< HEAD conflicts'',
        ''git add . && git commit to complete merge''],
      ep_success_rate = 85\<rparr>,
     \<lparr>ep_id = ''git_permission_denied'', ep_type = ''git_auth_error'',
      signature = ''Permission denied.*publickey|Authentication failed'',
      confidence_threshold = 94,
      ep_fix_templates = [''ssh-add ~/.ssh/id_rsa'',
        ''git remote set-url origin git@github.com:user/repo.git'',
        ''Update GitHub personal access token''],
      ep_success_rate = 92\<rparr>,
     \<lparr>ep_id = ''npm_install_network_error'', ep_type = ''build_dependency_error'',
      signature = ''npm ERR.*network|ENOTFOUND registry.npmjs.org'',
      confidence_threshold = 89,
      ep_fix_templates = [''npm cache clean --force'',
        ''npm config set registry https://registry.npmjs.org/''],
      ep_success_rate = 87\<rparr>,
     \<lparr>ep_id = ''api_rate_limit_exceeded'', ep_type = ''network_rate_limit_error'',
      signature = ''rate limit.*exceeded|429.*Too Many Requests'',
      confidence_threshold = 97,
      ep_fix_templates = [''Add rate limiting: await sleep(1000)'',
        ''Implement retry with backoff''],
      ep_success_rate = 94\<rparr>,
     \<lparr>ep_id = ''db_connection_refused'', ep_type = ''database_connection_error'',
      signature = ''Connection refused.*database|ECONNREFUSED.*5432'',
      confidence_threshold = 93,
      ep_fix_templates = [''Start database service'', ''Check connection string''],
      ep_success_rate = 91\<rparr>,
     \<lparr>ep_id = ''permission_denied_file_access'', ep_type = ''security_permission_error'',
      signature = ''Permission denied|EACCES.*permission denied'',
      confidence_threshold = 95,
      ep_fix_templates = [''chmod 755 {file}'', ''sudo chown user:group {file}''],
      ep_success_rate = 89\<rparr>]\<close>

definition new_LocalPatternEngine :: LocalPatternEngine where
  "new_LocalPatternEngine =
     \<lparr>patterns = map (\<lambda>pattern. (ep_id pattern, pattern)) builtin_patterns,
      signatureCache = []\<rparr>"

definition ctx_socket_1 :: ErrorContext where
  "ctx_socket_1 =
     \<lparr>error_message = ''socket hang'', stack_trace = Some ''up_x'',
      repo_context = ''r'', environment_info = None\<rparr>"

definition ctx_socket_2 :: ErrorContext where
  "ctx_socket_2 =
     \<lparr>error_message = ''socket hang_up'', stack_trace = Some ''x'',
      repo_context = ''r'', environment_info = None\<rparr>"


section \<open>Claude interface (claude-interface.ts)\<close>

record UsageEntry =
  tokens_used :: nat
  cost :: real
  model :: string
  usage_timestamp :: timestamp
  batch_size :: nat

text \<open>
  The usage tracker keeps its log in memory; the backup file it writes after every entry
  is never read again and is left out.
\<close>

record UsageTracker =
  usageLog :: "UsageEntry list"

definition DAILY_CALL_LIMIT :: nat where
  "DAILY_CALL_LIMIT = 17"

text \<open>
  \<open>toDateString\<close> gives the calendar date in the local time zone of the process. The
  zone is a fixed offset \<open>tz\<close> from UTC in minutes, and the date is represented by its
  day number since the epoch.
\<close>

definition toDateString :: "int \<Rightarrow> timestamp \<Rightarrow> int" where
  "toDateString tz t = (int t + tz * 60000) div 86400000"

definition recordUsage :: "UsageEntry \<Rightarrow> UsageTracker \<Rightarrow> UsageTracker" where
  "recordUsage usage tr = tr\<lparr>usageLog := usageLog tr @ [usage]\<rparr>"

definition todayUsage :: "int \<Rightarrow> timestamp \<Rightarrow> UsageTracker \<Rightarrow> UsageEntry list" where
  "todayUsage tz now tr =
     filter (\<lambda>log. toDateString tz (usage_timestamp log) = toDateString tz now) (usageLog tr)"

definition callsMadeToday :: "int \<Rightarrow> timestamp \<Rightarrow> UsageTracker \<Rightarrow> nat" where
  "callsMadeToday tz now tr = length (todayUsage tz now tr)"

definition costToday :: "int \<Rightarrow> timestamp \<Rightarrow> UsageTracker \<Rightarrow> real" where
  "costToday tz now tr = fold (\<lambda>log sum. sum + cost log) (todayUsage tz now tr) 0"

definition tracker_checkDailyBudget :: "int \<Rightarrow> timestamp \<Rightarrow> UsageTracker \<Rightarrow> BudgetCheck" where
  "tracker_checkDailyBudget tz now tr =
     \<lparr>can_proceed = (callsMadeToday tz now tr < DAILY_CALL_LIMIT),
      remaining_budget = max 0 (real DAILY_CALL_LIMIT - real (callsMadeToday tz now tr)),
      calls_made_today = callsMadeToday tz now tr\<rparr>"

definition canUseClaude :: "int \<Rightarrow> timestamp \<Rightarrow> priority \<Rightarrow> UsageTracker \<Rightarrow> bool" where
  "canUseClaude tz now prio tr =
     (let budgetStatus = tracker_checkDailyBudget tz now tr
      in if prio = Critical then calls_made_today budgetStatus < DAILY_CALL_LIMIT + 5
         else can_proceed budgetStatus)"

subsection \<open>Batch processor\<close>

definition OPTIMAL_BATCH_SIZE :: nat where
  "OPTIMAL_BATCH_SIZE = 12"

fun removeDuplicateErrors_from :: "string list \<Rightarrow> ErrorContext list \<Rightarrow> ErrorContext list" where
  "removeDuplicateErrors_from seen [] = []"
| "removeDuplicateErrors_from seen (error # errors) =
     (let sig = error_message error @ ''_'' @ repo_context error
      in if sig \<in> set seen then removeDuplicateErrors_from seen errors
         else error # removeDuplicateErrors_from (sig # seen) errors)"

definition removeDuplicateErrors :: "ErrorContext list \<Rightarrow> ErrorContext list" where
  "removeDuplicateErrors errors = removeDuplicateErrors_from [] errors"

text \<open>A stable sort, longest stack trace first.\<close>

definition prioritizeNovelErrors :: "ErrorContext list \<Rightarrow> ErrorContext list" where
  "prioritizeNovelErrors errors = sort_key (\<lambda>e. - int (length (stack_or_empty e))) errors"

definition optimizeForCostEfficiency :: "ErrorContext list \<Rightarrow> ErrorContext list" where
  "optimizeForCostEfficiency errorBatch =
     (let uniqueErrors = removeDuplicateErrors errorBatch;
          optimizedBatch = take OPTIMAL_BATCH_SIZE uniqueErrors
      in prioritizeNovelErrors optimizedBatch)"

subsection \<open>The request\<close>

definition nl :: string where
  "nl = [CHR 0x0A]"

fun join :: "string \<Rightarrow> string list \<Rightarrow> string" where
  "join sep [] = []"
| "join sep [x] = x"
| "join sep (x # y # ys) = x @ sep @ join sep (y # ys)"

text \<open>\<open>JSON.stringify\<close> of the environment object is the parameter \<open>stringify\<close>.\<close>

type_synonym json_stringify = "(string \<times> string) list \<Rightarrow> string"

definition error_block :: "json_stringify \<Rightarrow> ErrorContext \<Rightarrow> nat \<Rightarrow> string" where
  "error_block stringify error index =
     join nl
       ['''',
        ''Error '' @ dec (index + 1) @ '':'',
        ''- Message: '' @ error_message error,
        ''- Repository: '' @ repo_context error,
        ''- Stack Trace: '' @ (if stack_or_empty error \<noteq> []
                               then take 200 (stack_or_empty error) @ ''...''
                               else ''Not provided''),
        ''- Environment: '' @ stringify (case environment_info error of
                                           None \<Rightarrow> [] | Some env \<Rightarrow> env),
        '''']"

definition createBatchAnalysisPrompt :: "json_stringify \<Rightarrow> ErrorContext list \<Rightarrow> bool \<Rightarrow> string" where
  \<open>createBatchAnalysisPrompt stringify errorBatch crossRepoContext =
     join nl
       ['''',
        ''BATCH ERROR ANALYSIS REQUEST'',
        ''============================'',
        '''',
        ''Analyze '' @ dec (length errorBatch) @ '' error patterns for debugging intelligence.'',
        '''',
        ''ERRORS TO ANALYZE:'',
        join nl (map (\<lambda>(error, index). error_block stringify error index)
                   (zip errorBatch [0 ..< length errorBatch])),
        '''',
        ''ANALYSIS REQUIREMENTS:'',
        ''1. Identify novel error patterns not commonly documented'',
        ''2. Find root cause categories and prevention strategies'',
        ''3. '' @ (if crossRepoContext then ''Identify cross-repository correlation patterns''
                   else ''Focus on individual error analysis''),
        ''4. Provide confidence scores for each insight (0-100)'',
        ''5. Suggest concrete fix implementations'',
        '''',
        ''OUTPUT FORMAT (JSON):'',
        ''{'',
        ''  "patterns": ['',
        ''    {'',
        ''      "pattern_id": "unique_identifier",'',
        ''      "pattern_type": "category",'',
        ''      "confidence": 85,'',
        ''      "root_cause": "specific cause",'',
        ''      "prevention_strategy": "how to prevent",'',
        ''      "fix_template": "concrete fix steps",'',
        ''      "transferability": "how applicable to other repos"'',
        ''    }'',
        ''  ],'',
        ''  "novel_insights": ['',
        ''    {'',
        ''      "insight": "unique discovery",'',
        ''      "confidence": 90,'',
        ''      "applicable_repos": ["repo1", "repo2"],'',
        ''      "implementation_steps": ["step1", "step2"]'',
        ''    }'',
        ''  ],'',
        ''  '' @ (if crossRepoContext
                  then join nl
                         [''"cross_repo_correlations": ['',
                          ''    {'',
                          ''      "correlation": "pattern that appears across repos",'',
                          ''      "frequency": "how often seen",'',
                          ''      "risk_assessment": "potential impact",'',
                          ''      "prevention_recommendation": "org-wide prevention strategy"'',
                          ''    }'',
                          ''  ],'']
                  else ''''),
        ''  "processing_notes": "any limitations or additional context"'',
        ''}'',
        '''',
        ''Focus on actionable insights with high confidence scores. Prioritize patterns that can be cached for future zero-cost analysis.'',
        '''']\<close>

subsection \<open>The response\<close>

text \<open>
  What the service call yields: an exception, or a response with its list of content
  blocks. The first block is handed on; it is \<open>undefined\<close> for an empty list, a block
  with a text, or a block of another kind, which has no \<open>text\<close>.
\<close>

datatype content = CUndefined | CString string | CText string | COther

datatype api_result = ApiError string | ApiResponse "content list"

definition first_content :: "content list \<Rightarrow> content" where
  "first_content cs = (case cs of [] \<Rightarrow> CUndefined | c # _ \<Rightarrow> c)"

datatype js_error = TypeError string | SyntaxError string | Error string

fun message :: "js_error \<Rightarrow> string" where
  "message (TypeError m) = m"
| "message (SyntaxError m) = m"
| "message (Error m) = m"

type_synonym correlation = "(string \<times> string) list"

text \<open>
  The object that \<open>JSON.parse\<close> returns, of which the three list fields and the note are
  read. A field is absent (\<open>None\<close>) or holds a list, as the requested output format has it.
  \<open>JSON.parse\<close> itself is the parameter \<open>json_parse\<close>; \<open>None\<close> is its \<open>SyntaxError\<close>.
\<close>

record ParsedResult =
  pr_patterns :: "Finding list option"
  pr_novel_insights :: "Finding list option"
  pr_cross_repo_correlations :: "correlation list option"
  pr_processing_notes :: "string option"

type_synonym json_parser = "string \<Rightarrow> ParsedResult option"

text \<open>
  The match of \<open>/\{[\s\S]*\}/\<close>: from the first opening brace to the last closing brace
  after it.
\<close>

definition match_json_block :: "string \<Rightarrow> string option" where
  "match_json_block textContent =
     (let from_brace = dropWhile (\<lambda>c. c \<noteq> CHR ''{'') textContent
      in if from_brace = [] \<or> CHR ''}'' \<notin> set (tl from_brace) then None
         else Some (rev (dropWhile (\<lambda>c. c \<noteq> CHR ''}'') (rev from_brace))))"

text \<open>The \<open>try\<close> block of \<open>parseStructuredResponse\<close>, with its exceptions as values.\<close>

definition parseStructuredResponse_try :: "json_parser \<Rightarrow> content \<Rightarrow> js_error + ParsedResult" where
  "parseStructuredResponse_try json_parse c =
     (case (case c of CString s \<Rightarrow> Inr (Some s)
                    | CText s \<Rightarrow> Inr (Some s)
                    | COther \<Rightarrow> Inr None
                    | CUndefined \<Rightarrow> Inl (TypeError ''Cannot read properties of undefined''))
      of Inl e \<Rightarrow> Inl e
       | Inr None \<Rightarrow> Inl (TypeError ''Cannot read properties of undefined'')
       | Inr (Some textContent) \<Rightarrow>
           (case match_json_block textContent of
              None \<Rightarrow> Inl (Error ''No JSON found in Claude response'')
            | Some jsonText \<Rightarrow>
                (case json_parse jsonText of
                   None \<Rightarrow> Inl (SyntaxError ''Unexpected token'')
                 | Some parsedResult \<Rightarrow>
                     (let p1 = (if pr_patterns parsedResult = None
                                then parsedResult\<lparr>pr_patterns := Some []\<rparr>
                                else parsedResult);
                          p2 = (if pr_novel_insights p1 = None
                                then p1\<lparr>pr_novel_insights := Some []\<rparr>
                                else p1)
                      in Inr p2))))"

definition failed_parse_result :: ParsedResult where
  "failed_parse_result =
     \<lparr>pr_patterns = Some [], pr_novel_insights = Some [],
      pr_cross_repo_correlations = Some [],
      pr_processing_notes = Some ''Failed to parse structured response''\<rparr>"

definition parseStructuredResponse :: "json_parser \<Rightarrow> content \<Rightarrow> ParsedResult" where
  "parseStructuredResponse json_parse c =
     (case parseStructuredResponse_try json_parse c of
        Inr parsedResult \<Rightarrow> parsedResult
      | Inl error \<Rightarrow> failed_parse_result)"

text \<open>Token estimate: a quarter of the characters, rounded up; \<open>None\<close> is the \<open>TypeError\<close>
  of reading \<open>text\<close> from \<open>undefined\<close>.\<close>

definition estimateTokenUsage :: "string \<Rightarrow> content \<Rightarrow> nat option" where
  "estimateTokenUsage prompt response =
     (let promptTokens = (length prompt + 3) div 4
      in case response of
           CUndefined \<Rightarrow> None
         | CString s \<Rightarrow> Some (promptTokens + (length s + 3) div 4)
         | CText s \<Rightarrow> Some (promptTokens + (length s + 3) div 4)
         | COther \<Rightarrow> Some (promptTokens + 0))"

definition calculateCallCost :: "nat \<Rightarrow> real" where
  "calculateCallCost tokensUsed =
     (let inputTokens = real tokensUsed * 0.7;
          outputTokens = real tokensUsed * 0.3;
          inputCost = (inputTokens / 1000000) * 0.25;
          outputCost = (outputTokens / 1000000) * 1.25
      in inputCost + outputCost)"

record ClaudeAnalysisResult =
  patterns_found :: "Finding list"
  novel_insights :: "Finding list"
  cross_repo_correlations :: "correlation list"
  api_cost :: real
  analysis_time :: nat
  analysis_tokens :: nat

text \<open>
  \<open>analyzeBatchWithBudget\<close>. \<open>now\<close> is the time of entry and of the budget check,
  \<open>later\<close> the time after the service answered, when the usage is recorded. \<open>api\<close> is the
  service: what \<open>messages.create\<close> does with the prompt. A raised error is \<open>Inl\<close>;
  every error raised after the budget check is rethrown as "Claude analysis failed".
\<close>

definition analyzeBatchWithBudget ::
  "int \<Rightarrow> json_stringify \<Rightarrow> json_parser \<Rightarrow> (string \<Rightarrow> api_result) \<Rightarrow>
   timestamp \<Rightarrow> timestamp \<Rightarrow> ErrorContext list \<Rightarrow> bool \<Rightarrow> UsageTracker \<Rightarrow>
   (js_error + ClaudeAnalysisResult) \<times> UsageTracker" where
  "analyzeBatchWithBudget tz stringify json_parse api now later errorBatch crossRepoContext tr =
     (let budgetStatus = tracker_checkDailyBudget tz now tr
      in if \<not> can_proceed budgetStatus
         then (Inl (Error (''Daily budget exceeded. Used '' @ dec (calls_made_today budgetStatus)
                             @ ''/'' @ dec DAILY_CALL_LIMIT @ '' calls'')), tr)
         else
           (let optimizedBatch = optimizeForCostEfficiency errorBatch;
                batchPrompt = createBatchAnalysisPrompt stringify optimizedBatch crossRepoContext
            in case api batchPrompt of
                 ApiError m \<Rightarrow> (Inl (Error (''Claude analysis failed: '' @ m)), tr)
               | ApiResponse blocks \<Rightarrow>
                   (case estimateTokenUsage batchPrompt (first_content blocks) of
                      None \<Rightarrow>
                        (Inl (Error (''Claude analysis failed: ''
                                      @ ''Cannot read properties of undefined'')), tr)
                    | Some tokensUsed \<Rightarrow>
                        (let callCost = calculateCallCost tokensUsed;
                             tr' = recordUsage
                                     \<lparr>tokens_used = tokensUsed, cost = callCost,
                                      model = ''claude-3-haiku-20240307'',
                                      usage_timestamp = later,
                                      batch_size = length optimizedBatch\<rparr> tr;
                             analysisResult = parseStructuredResponse json_parse (first_content blocks)
                         in (Inr \<lparr>patterns_found = or_list (pr_patterns analysisResult) [],
                                  novel_insights = or_list (pr_novel_insights analysisResult) [],
                                  cross_repo_correlations =
                                    or_list (pr_cross_repo_correlations analysisResult) [],
                                  api_cost = callCost,
                                  analysis_time = later - now,
                                  analysis_tokens = tokensUsed\<rparr>,
                             tr')))))"

text \<open>
  States of the usage tracker that calls of \<open>analyzeBatchWithBudget\<close>, made one after the
  other as the clock advances, can produce from the empty log. \<open>recordUsage\<close> has no other
  caller.
\<close>

inductive tracker_reachable ::
  "int \<Rightarrow> json_stringify \<Rightarrow> json_parser \<Rightarrow> timestamp \<Rightarrow> UsageTracker \<Rightarrow> bool"
  for tz :: int and stringify :: json_stringify and json_parse :: json_parser
where
  start: "tracker_reachable tz stringify json_parse t \<lparr>usageLog = []\<rparr>"
| wait: "tracker_reachable tz stringify json_parse t tr \<Longrightarrow> t \<le> t' \<Longrightarrow>
         tracker_reachable tz stringify json_parse t' tr"
| call: "tracker_reachable tz stringify json_parse t tr \<Longrightarrow> t \<le> later \<Longrightarrow>
         tracker_reachable tz stringify json_parse later
           (snd (analyzeBatchWithBudget tz stringify json_parse api t later
                   errorBatch crossRepoContext tr))"

text \<open>What holds of every reachable state: the entries lie in the past and cost nothing
  negative, and no day holds more than the daily limit of calls.\<close>

definition tracker_inv :: "int \<Rightarrow> timestamp \<Rightarrow> UsageTracker \<Rightarrow> bool" where
  "tracker_inv tz t tr \<longleftrightarrow>
     (\<forall>e \<in> set (usageLog tr). usage_timestamp e \<le> t \<and> 0 \<le> cost e)
     \<and> (\<forall>d. length (filter (\<lambda>e. toDateString tz (usage_timestamp e) = d) (usageLog tr))
            \<le> DAILY_CALL_LIMIT)"

section \<open>The server (index.ts)\<close>

text \<open>The library functions and the analysis service that the server runs on.\<close>

record Runtime =
  rt_tz :: int
  rt_stringify :: json_stringify
  rt_json_parse :: json_parser
  rt_regex_test :: regex_test
  rt_digest :: id_digest
  rt_api :: "string \<Rightarrow> api_result"

record DebugIntelligenceMCPServer =
  localPatternEngine :: LocalPatternEngine
  claudeInterface :: UsageTracker
  intelligenceCache :: ErrorIntelligenceCache
  processingScheduler :: StrategicProcessingScheduler

datatype analysis_depth = Local_only_depth | Claude_if_needed | Comprehensive

text \<open>The JSON documents that the tools return, by their \<open>analysis_type\<close>.\<close>

datatype tool_result =
    Local_pattern_match real string "CachedSolution option" real nat
  | Queued_for_claude_analysis nat string real real
  | Local_only "ErrorPattern list" "real list" "string list" real
  | Local_fallback_budget_exceeded "ErrorPattern list" string real
  | Claude_enhanced "Finding list" "Finding list" "correlation list" real bool
  | Tool_error string string

text \<open>An object is truthy, whatever its fields hold.\<close>

definition truthy_object :: "'a \<Rightarrow> bool" where
  "truthy_object obj = True"

definition captureErrorContext ::
  "Runtime \<Rightarrow> timestamp \<Rightarrow> nat \<Rightarrow> ErrorContext \<Rightarrow> DebugIntelligenceMCPServer \<Rightarrow>
   tool_result \<times> DebugIntelligenceMCPServer" where
  "captureErrorContext rt now elapsed args srv =
     (let (localMatch, eng') =
            matchErrorPattern (rt_regex_test rt) elapsed args (localPatternEngine srv);
          srv1 = srv\<lparr>localPatternEngine := eng'\<rparr>
      in if confidence localMatch > 85
         then (let (cachedSolution, cache') =
                     getCachedSolution (m_pattern_id localMatch) now (intelligenceCache srv1)
               in (Local_pattern_match (confidence localMatch) (m_pattern_type localMatch)
                     cachedSolution 0 (processing_time localMatch),
                   srv1\<lparr>intelligenceCache := cache'\<rparr>))
         else (let (queueResult, sch') =
                     queueForClaudeAnalysis now args (processingScheduler srv1)
               in (Queued_for_claude_analysis (position queueResult)
                     (estimated_time queueResult) (confidence localMatch)
                     (cost_estimate queueResult),
                   srv1\<lparr>processingScheduler := sch'\<rparr>)))"

definition analyzeErrorPatterns ::
  "Runtime \<Rightarrow> timestamp \<Rightarrow> timestamp \<Rightarrow> nat \<Rightarrow> ErrorContext list \<Rightarrow> analysis_depth \<Rightarrow> bool \<Rightarrow>
   DebugIntelligenceMCPServer \<Rightarrow> tool_result \<times> DebugIntelligenceMCPServer" where
  "analyzeErrorPatterns rt now later elapsed error_batch depth cross_repo_context srv =
     (if depth = Local_only_depth
      then (let (localAnalysis, eng') =
                  analyzeBatchLocally (rt_regex_test rt) elapsed error_batch (localPatternEngine srv)
            in (Local_only (la_patterns localAnalysis) (confidence_scores localAnalysis)
                  (recommended_actions localAnalysis) 0,
                srv\<lparr>localPatternEngine := eng'\<rparr>))
      else
        (let canUseClaude = scheduler_checkDailyBudget (processingScheduler srv)
         in if \<not> truthy_object canUseClaude \<and> depth = Claude_if_needed
            then (let (localAnalysis, eng') =
                        analyzeBatchLocally (rt_regex_test rt) elapsed error_batch
                          (localPatternEngine srv)
                  in (Local_fallback_budget_exceeded (la_patterns localAnalysis)
                        ''daily_limit_reached'' 0,
                      srv\<lparr>localPatternEngine := eng'\<rparr>))
            else
              (case analyzeBatchWithBudget (rt_tz rt) (rt_stringify rt) (rt_json_parse rt)
                      (rt_api rt) now later error_batch cross_repo_context (claudeInterface srv)
               of (Inl error, tr') \<Rightarrow>
                    (Tool_error ''Failed to analyze error patterns'' (message error),
                     srv\<lparr>claudeInterface := tr'\<rparr>)
                | (Inr claudeAnalysis, tr') \<Rightarrow>
                    (Claude_enhanced (patterns_found claudeAnalysis)
                       (novel_insights claudeAnalysis)
                       (cross_repo_correlations claudeAnalysis)
                       (api_cost claudeAnalysis) True,
                     srv\<lparr>claudeInterface := tr',
                         intelligenceCache :=
                           cacheAnalysisResults (rt_digest rt) later
                             (Some (patterns_found claudeAnalysis))
                             (Some (novel_insights claudeAnalysis))
                             (intelligenceCache srv)\<rparr>))))"


text \<open>Sample values used to instantiate the theorems below.\<close>

definition sample_solution :: CachedSolution where
  "sample_solution =
     \<lparr>pattern_id = ''p1'', solution_text = JStr ''do x'', confidence_score = 97,
      success_rate = 80, applicable_repos = [''all''], fix_templates = [JStr ''do x''],
      prevention_strategies = [], cached_date = 1000, usage_count = 4, last_accessed = 2000\<rparr>"

definition empty_cache :: ErrorIntelligenceCache where
  "empty_cache =
     \<lparr>solutionCache = [],
      cacheStats = \<lparr>total_cached_solutions = 0, cache_hit_rate = 0,
                    total_api_calls_saved = 0, estimated_cost_savings = 0\<rparr>,
      cacheHits = 0, cacheMisses = 0, cacheFiles = Map.empty, fsWritable = (\<lambda>_. True)\<rparr>"

definition sample_cache :: ErrorIntelligenceCache where
  "sample_cache = empty_cache\<lparr>solutionCache := [(''p1'', sample_solution)]\<rparr>"

text \<open>The discovered pattern of the round-trip scenario; every other field is absent.\<close>

definition ctx_type_error_a :: ErrorContext where
  "ctx_type_error_a =
     \<lparr>error_message = ''TypeError: a is undefined'', stack_trace = None,
      repo_context = ''web'', environment_info = None\<rparr>"

definition ctx_type_error_b :: ErrorContext where
  "ctx_type_error_b =
     \<lparr>error_message = ''TypeError: b is not a function'', stack_trace = None,
      repo_context = ''worker'', environment_info = None\<rparr>"

definition ctx_unauthorized :: ErrorContext where
  "ctx_unauthorized =
     \<lparr>error_message = ''unauthorized'', stack_trace = None,
      repo_context = ''web'', environment_info = None\<rparr>"

definition empty_scheduler :: StrategicProcessingScheduler where
  "empty_scheduler = \<lparr>errorQueue = []\<rparr>"

definition pattern_p1 :: Finding where
  "pattern_p1 =
     \<lparr>f_pattern_id = Some ''p1'', f_pattern_type = None, f_type = None, f_root_cause = None,
      f_insight = None, f_error_message = None, f_repo_context = None,
      f_confidence = Some 90, f_applicable_repos = None, f_fix_template = JArr [''do x''],
      f_prevention_strategy = None, f_implementation_steps = None,
      f_prevention_recommendations = None\<rparr>"

definition new_server :: DebugIntelligenceMCPServer where
  "new_server =
     \<lparr>localPatternEngine = new_LocalPatternEngine, claudeInterface = \<lparr>usageLog = []\<rparr>,
      intelligenceCache = empty_cache, processingScheduler = empty_scheduler\<rparr>"

text \<open>
  A runtime for concrete runs. The service answers every request with one text block
  that holds the pattern "p1" of the round-trip scenario; \<open>JSON.parse\<close> is given on
  that text, \<open>JSON.stringify\<close> on objects whose strings need no escaping. The digest
  and the matcher stand in for MD5 and \<open>RegExp\<close>; the time zone is UTC.
\<close>

definition sample_response :: string where
  \<open>sample_response =
     ''{"patterns": [{"pattern_id": "p1", "fix_template": ["do x"], "confidence": 90}]}''\<close>

definition sample_api :: "string \<Rightarrow> api_result" where
  "sample_api prompt = ApiResponse [CText sample_response]"

definition sample_json_parse :: json_parser where
  "sample_json_parse text =
     (if text = sample_response
      then Some \<lparr>pr_patterns = Some [pattern_p1], pr_novel_insights = None,
                 pr_cross_repo_correlations = None, pr_processing_notes = None\<rparr>
      else None)"

definition sample_stringify :: json_stringify where
  \<open>sample_stringify env =
     ''{'' @ join '','' (map (\<lambda>(k, v). ''"'' @ k @ ''":"'' @ v @ ''"'') env) @ ''}''\<close>

definition sample_digest :: id_digest where
  "sample_digest x = ''0123456789ab''"

definition sample_runtime :: Runtime where
  "sample_runtime =
     \<lparr>rt_tz = 0, rt_stringify = sample_stringify, rt_json_parse = sample_json_parse,
      rt_regex_test = regex_test_i, rt_digest = sample_digest, rt_api = sample_api\<rparr>"

text \<open>An error whose message has 600000 characters, and seventeen calls for it at one time.\<close>

definition long_message :: string where
  "long_message = replicate 600000 (CHR ''x'')"

definition ctx_long :: ErrorContext where
  "ctx_long =
     \<lparr>error_message = long_message, stack_trace = None,
      repo_context = ''web'', environment_info = None\<rparr>"

fun same_day_calls :: "nat \<Rightarrow> UsageTracker" where
  "same_day_calls 0 = \<lparr>usageLog = []\<rparr>"
| "same_day_calls (Suc n) =
     snd (analyzeBatchWithBudget 0 sample_stringify sample_json_parse sample_api
            1700001000000 1700001000000 [ctx_long] True (same_day_calls n))"

text \<open>A server whose usage log holds seventeen calls made on 14 November 2023 (UTC).\<close>

definition exhausted_server :: DebugIntelligenceMCPServer where
  "exhausted_server =
     new_server\<lparr>claudeInterface :=
       \<lparr>usageLog = replicate 17
          \<lparr>tokens_used = 398, cost = 0.0002189, model = ''claude-3-haiku-20240307'',
           usage_timestamp = 1700000900000, batch_size = 1\<rparr>\<rparr>\<rparr>"

section \<open>Properties of the result cache\<close>

lemma solutionCache_saveSolutionToFile [simp]:
  "solutionCache (saveSolutionToFile s c) = solutionCache c"
  by (simp add: saveSolutionToFile_def)

lemma getCachedSolution_hit:
  assumes "map_of (solutionCache c) k = Some s"
  shows "fst (getCachedSolution k now c) =
           Some (s\<lparr>usage_count := usage_count s + 1, last_accessed := now\<rparr>)"
    and "map_of (solutionCache (snd (getCachedSolution k now c))) =
           (map_of (solutionCache c))
             (k \<mapsto> s\<lparr>usage_count := usage_count s + 1, last_accessed := now\<rparr>)"
  using assms by (simp_all add: getCachedSolution_def Let_def update_conv')

lemma getCachedSolution_miss:
  "map_of (solutionCache c) k = None \<Longrightarrow> fst (getCachedSolution k now c) = None"
  by (simp add: getCachedSolution_def)

text \<open>
  C7 (idempotent cache hits). For a pattern that is in the cache, two consecutive calls of
  \<open>getCachedSolution\<close> both hit; each returns the stored record with \<open>usage_count\<close> one
  higher and \<open>last_accessed\<close> refreshed, and nothing else changed: \<open>solution_text\<close> and
  \<open>fix_templates\<close> are those of the stored record, and the entries of all other patterns
  are untouched.
\<close>

theorem getCachedSolution_twice:
  assumes "map_of (solutionCache c) k = Some s"
  shows "(let (r1, c1) = getCachedSolution k t1 c;
              (r2, c2) = getCachedSolution k t2 c1
          in r1 = Some (s\<lparr>usage_count := usage_count s + 1, last_accessed := t1\<rparr>)
           \<and> r2 = Some (s\<lparr>usage_count := usage_count s + 2, last_accessed := t2\<rparr>)
           \<and> map_option solution_text r1 = Some (solution_text s)
           \<and> map_option solution_text r2 = Some (solution_text s)
           \<and> map_option fix_templates r1 = Some (fix_templates s)
           \<and> map_option fix_templates r2 = Some (fix_templates s)
           \<and> map_of (solutionCache c2) =
               (map_of (solutionCache c))
                 (k \<mapsto> s\<lparr>usage_count := usage_count s + 2, last_accessed := t2\<rparr>))"
proof -
  let ?s1 = "s\<lparr>usage_count := usage_count s + 1, last_accessed := t1\<rparr>"
  obtain r1 c1 where g1: "getCachedSolution k t1 c = (r1, c1)"
    by (cases "getCachedSolution k t1 c")
  obtain r2 c2 where g2: "getCachedSolution k t2 c1 = (r2, c2)"
    by (cases "getCachedSolution k t2 c1")
  from getCachedSolution_hit [OF assms, of t1] g1
  have r1: "r1 = Some ?s1"
    and m1: "map_of (solutionCache c1) = (map_of (solutionCache c))(k \<mapsto> ?s1)"
    by simp_all
  from m1 have h1: "map_of (solutionCache c1) k = Some ?s1"
    by simp
  from getCachedSolution_hit [OF h1, of t2] g2
  have r2: "r2 = Some (s\<lparr>usage_count := usage_count s + 2, last_accessed := t2\<rparr>)"
    and m2: "map_of (solutionCache c2) =
               (map_of (solutionCache c1))
                 (k \<mapsto> s\<lparr>usage_count := usage_count s + 2, last_accessed := t2\<rparr>)"
    by simp_all
  from m1 m2 have "map_of (solutionCache c2) =
      (map_of (solutionCache c))
        (k \<mapsto> s\<lparr>usage_count := usage_count s + 2, last_accessed := t2\<rparr>)"
    by simp
  with r1 r2 g1 g2 show ?thesis
    by simp
qed

theorem getCachedSolution_twice_witness:
  "map_of (solutionCache sample_cache) ''p1'' = Some sample_solution
   \<and> fst (getCachedSolution ''p1'' 6000
            (snd (getCachedSolution ''p1'' 5000 sample_cache)))
       = Some (sample_solution\<lparr>usage_count := 6, last_accessed := 6000\<rparr>)"
proof -
  have h: "map_of (solutionCache sample_cache) ''p1'' = Some sample_solution"
    by (simp add: sample_cache_def)
  have u: "usage_count sample_solution = 4"
    by (simp add: sample_solution_def)
  from getCachedSolution_twice [OF h, of 5000 6000] u h show ?thesis
    by (simp add: Let_def split: prod.splits)
qed

lemma solutionCache_cacheSolution:
  "map_of (solutionCache (cacheSolution s c)) = (map_of (solutionCache c))(pattern_id s \<mapsto> s)"
  by (simp add: cacheSolution_def update_conv')

lemma solutionCache_updateCacheStatistics [simp]:
  "solutionCache (updateCacheStatistics c) = solutionCache c"
  by (simp add: updateCacheStatistics_def Let_def)

lemma generatePatternId_not_p1: "generatePatternId digest i \<noteq> ''p1''"
  by (simp add: generatePatternId_def)

lemma insights_keep_p1:
  "map_of (solutionCache
      (fold (\<lambda>insight. cacheSolution (solution_of_insight digest now insight)) is c)) ''p1''
   = map_of (solutionCache c) ''p1''"
proof (induction "is" arbitrary: c)
  case Nil
  show ?case by simp
next
  case (Cons i "is")
  have "pattern_id (solution_of_insight digest now i) \<noteq> ''p1''"
    using generatePatternId_not_p1 [of digest i] by (simp add: solution_of_insight_def)
  then show ?case
    by (simp add: Cons.IH solutionCache_cacheSolution)
qed

text \<open>
  C8 (cache round trip). From any cache, \<open>cacheAnalysisResults\<close> of the single discovered
  pattern with \<open>pattern_id\<close> "p1", \<open>fix_template\<close> ["do x"] and \<open>confidence\<close> 90 (with any
  list of novel insights beside it), followed by \<open>getCachedSolution\<close> of "p1", returns a
  record whose \<open>solution_text\<close> is the given template ["do x"], whose \<open>fix_templates\<close> hold
  "do x", whose \<open>confidence_score\<close> is 90 and whose \<open>usage_count\<close> is 1: it was stored with
  count 0 and the lookup added one.
\<close>

theorem cache_round_trip:
  "(let c1 = cacheAnalysisResults digest t0 (Some [pattern_p1]) insights c;
        (r, c2) = getCachedSolution ''p1'' t1 c1
    in map_option usage_count (map_of (solutionCache c1) ''p1'') = Some 0
     \<and> map_option pattern_id r = Some ''p1''
     \<and> map_option solution_text r = Some (JArr [''do x''])
     \<and> map_option fix_templates r = Some [JStr ''do x'']
     \<and> map_option confidence_score r = Some 90
     \<and> map_option success_rate r = Some 85
     \<and> map_option usage_count r = Some 1)"
proof -
  let ?s = "solution_of_pattern digest t0 pattern_p1"
  let ?c1 = "cacheAnalysisResults digest t0 (Some [pattern_p1]) insights c"
  have pid: "pattern_id ?s = ''p1''"
    by (simp add: solution_of_pattern_def pattern_p1_def)
  have stored: "map_of (solutionCache ?c1) ''p1'' = Some ?s"
    using pid
    by (simp add: cacheAnalysisResults_def Let_def or_list_def insights_keep_p1
        solutionCache_cacheSolution)
  have fields: "usage_count ?s = 0" "solution_text ?s = JArr [''do x'']"
    "fix_templates ?s = [JStr ''do x'']" "confidence_score ?s = 90" "success_rate ?s = 85"
    by (simp_all add: solution_of_pattern_def pattern_p1_def or_num_def)
  obtain r c2 where g: "getCachedSolution ''p1'' t1 ?c1 = (r, c2)"
    by (cases "getCachedSolution ''p1'' t1 ?c1")
  from getCachedSolution_hit(1) [OF stored, of t1] g
  have r: "r = Some (?s\<lparr>usage_count := usage_count ?s + 1, last_accessed := t1\<rparr>)"
    by simp
  from r g stored pid fields show ?thesis
    by (simp add: Let_def)
qed

lemma updateSolutionEffectiveness_hit:
  assumes "map_of (solutionCache c) k = Some s"
  shows "map_of (solutionCache (updateSolutionEffectiveness k ok now c)) =
           (map_of (solutionCache c))
             (k \<mapsto> s\<lparr>success_rate := success_rate s * (1 - 0.1) + (if ok then 100 else 0) * 0.1,
                     confidence_score := (if ok then min 100 (confidence_score s + 2)
                                          else max 50 (confidence_score s - 5)),
                     last_accessed := now\<rparr>)"
  using assms by (simp add: updateSolutionEffectiveness_def Let_def update_conv')

text \<open>
  C4 (effectiveness feedback). For a cached solution, \<open>updateSolutionEffectiveness\<close> stores
  \<open>success_rate * (1 - 0.1) + (100 if successful else 0) * 0.1\<close> as the new success rate,
  and moves \<open>confidence_score\<close> to \<open>min 100 (score + 2)\<close> on success and to
  \<open>max 50 (score - 5)\<close> on failure. Hence, from a success rate of 80, three successes in a
  row give the confidence scores \<open>min 100 (score + 2)\<close>, \<open>min 100 (score + 4)\<close> and
  \<open>min 100 (score + 6)\<close>, which never decrease, are at most 100 and are not below the
  starting score when that was at most 100; and the success rates 82, 83.8 and 85.42,
  strictly increasing and below 100.
\<close>

theorem update_effectiveness_contract:
  assumes "map_of (solutionCache c) k = Some s"
  shows "map_of (solutionCache (updateSolutionEffectiveness k ok now c)) k =
           Some (s\<lparr>success_rate := success_rate s * (1 - 0.1) + (if ok then 100 else 0) * 0.1,
                   confidence_score := (if ok then min 100 (confidence_score s + 2)
                                        else max 50 (confidence_score s - 5)),
                   last_accessed := now\<rparr>)
       \<and> (success_rate s = 80 \<longrightarrow>
           (let c1 = updateSolutionEffectiveness k True t1 c;
                c2 = updateSolutionEffectiveness k True t2 c1;
                c3 = updateSolutionEffectiveness k True t3 c2
            in \<exists>s1 s2 s3.
                 map_of (solutionCache c1) k = Some s1
               \<and> map_of (solutionCache c2) k = Some s2
               \<and> map_of (solutionCache c3) k = Some s3
               \<and> confidence_score s1 = min 100 (confidence_score s + 2)
               \<and> confidence_score s2 = min 100 (confidence_score s + 4)
               \<and> confidence_score s3 = min 100 (confidence_score s + 6)
               \<and> confidence_score s1 \<le> confidence_score s2
               \<and> confidence_score s2 \<le> confidence_score s3
               \<and> confidence_score s3 \<le> 100
               \<and> (confidence_score s \<le> 100 \<longrightarrow> confidence_score s \<le> confidence_score s1)
               \<and> success_rate s1 = 82 \<and> success_rate s2 = 83.8 \<and> success_rate s3 = 85.42
               \<and> success_rate s < success_rate s1 \<and> success_rate s1 < success_rate s2
               \<and> success_rate s2 < success_rate s3 \<and> success_rate s3 < 100))"
proof (intro conjI impI)
  show "map_of (solutionCache (updateSolutionEffectiveness k ok now c)) k =
           Some (s\<lparr>success_rate := success_rate s * (1 - 0.1) + (if ok then 100 else 0) * 0.1,
                   confidence_score := (if ok then min 100 (confidence_score s + 2)
                                        else max 50 (confidence_score s - 5)),
                   last_accessed := now\<rparr>)"
    by (simp add: updateSolutionEffectiveness_hit [OF assms])
next
  assume r: "success_rate s = 80"
  define s1 where "s1 = s\<lparr>success_rate := 82,
      confidence_score := min 100 (confidence_score s + 2), last_accessed := t1\<rparr>"
  define s2 where "s2 = s1\<lparr>success_rate := 83.8,
      confidence_score := min 100 (confidence_score s + 4), last_accessed := t2\<rparr>"
  define s3 where "s3 = s2\<lparr>success_rate := 85.42,
      confidence_score := min 100 (confidence_score s + 6), last_accessed := t3\<rparr>"
  let ?c1 = "updateSolutionEffectiveness k True t1 c"
  let ?c2 = "updateSolutionEffectiveness k True t2 ?c1"
  let ?c3 = "updateSolutionEffectiveness k True t3 ?c2"
  have m1: "map_of (solutionCache ?c1) k = Some s1"
    using r by (simp add: updateSolutionEffectiveness_hit [OF assms] s1_def)
  have e2: "s1\<lparr>success_rate := success_rate s1 * (1 - 0.1) + (if True then 100 else 0) * 0.1,
               confidence_score := (if True then min 100 (confidence_score s1 + 2)
                                    else max 50 (confidence_score s1 - 5)),
               last_accessed := t2\<rparr> = s2"
    by (simp add: s1_def s2_def min_def)
  have m2: "map_of (solutionCache ?c2) k = Some s2"
    using e2 by (simp add: updateSolutionEffectiveness_hit [OF m1])
  have e3: "s2\<lparr>success_rate := success_rate s2 * (1 - 0.1) + (if True then 100 else 0) * 0.1,
               confidence_score := (if True then min 100 (confidence_score s2 + 2)
                                    else max 50 (confidence_score s2 - 5)),
               last_accessed := t3\<rparr> = s3"
    by (simp add: s1_def s2_def s3_def min_def)
  have m3: "map_of (solutionCache ?c3) k = Some s3"
    using e3 by (simp add: updateSolutionEffectiveness_hit [OF m2])
  have facts: "confidence_score s1 = min 100 (confidence_score s + 2)"
    "confidence_score s2 = min 100 (confidence_score s + 4)"
    "confidence_score s3 = min 100 (confidence_score s + 6)"
    "success_rate s1 = 82" "success_rate s2 = 83.8" "success_rate s3 = 85.42"
    by (simp_all add: s1_def s2_def s3_def)
  have order: "confidence_score s1 \<le> confidence_score s2"
    "confidence_score s2 \<le> confidence_score s3" "confidence_score s3 \<le> 100"
    "confidence_score s \<le> 100 \<longrightarrow> confidence_score s \<le> confidence_score s1"
    "success_rate s < success_rate s1" "success_rate s1 < success_rate s2"
    "success_rate s2 < success_rate s3" "success_rate s3 < 100"
    using r by (simp_all add: facts)
  show "let c1 = updateSolutionEffectiveness k True t1 c;
            c2 = updateSolutionEffectiveness k True t2 c1;
            c3 = updateSolutionEffectiveness k True t3 c2
        in \<exists>s1 s2 s3.
             map_of (solutionCache c1) k = Some s1
           \<and> map_of (solutionCache c2) k = Some s2
           \<and> map_of (solutionCache c3) k = Some s3
           \<and> confidence_score s1 = min 100 (confidence_score s + 2)
           \<and> confidence_score s2 = min 100 (confidence_score s + 4)
           \<and> confidence_score s3 = min 100 (confidence_score s + 6)
           \<and> confidence_score s1 \<le> confidence_score s2
           \<and> confidence_score s2 \<le> confidence_score s3
           \<and> confidence_score s3 \<le> 100
           \<and> (confidence_score s \<le> 100 \<longrightarrow> confidence_score s \<le> confidence_score s1)
           \<and> success_rate s1 = 82 \<and> success_rate s2 = 83.8 \<and> success_rate s3 = 85.42
           \<and> success_rate s < success_rate s1 \<and> success_rate s1 < success_rate s2
           \<and> success_rate s2 < success_rate s3 \<and> success_rate s3 < 100"
    unfolding Let_def
    using m1 m2 m3 facts order by blast
qed

theorem update_effectiveness_contract_witness:
  "map_of (solutionCache sample_cache) ''p1'' = Some sample_solution
   \<and> success_rate sample_solution = 80
   \<and> confidence_score sample_solution \<le> 100
   \<and> map_option confidence_score
       (map_of (solutionCache (updateSolutionEffectiveness ''p1'' False 7000 sample_cache)) ''p1'')
       = Some 92
   \<and> map_option success_rate
       (map_of (solutionCache (updateSolutionEffectiveness ''p1'' False 7000 sample_cache)) ''p1'')
       = Some 72
   \<and> (\<exists>s3. map_of (solutionCache
               (updateSolutionEffectiveness ''p1'' True 9000
                 (updateSolutionEffectiveness ''p1'' True 8000
                   (updateSolutionEffectiveness ''p1'' True 7000 sample_cache)))) ''p1'' = Some s3
          \<and> confidence_score s3 = 100 \<and> success_rate s3 = 85.42)"
proof -
  have h: "map_of (solutionCache sample_cache) ''p1'' = Some sample_solution"
    by (simp add: sample_cache_def)
  have v: "success_rate sample_solution = 80" "confidence_score sample_solution = 97"
    by (simp_all add: sample_solution_def)
  have a: "map_of (solutionCache (updateSolutionEffectiveness ''p1'' False 7000 sample_cache)) ''p1''
           = Some (sample_solution\<lparr>success_rate := 72, confidence_score := 92,
                     last_accessed := 7000\<rparr>)"
    using update_effectiveness_contract [OF h, of False 7000 7000 8000 9000] v by simp
  have b: "\<exists>s3. map_of (solutionCache
               (updateSolutionEffectiveness ''p1'' True 9000
                 (updateSolutionEffectiveness ''p1'' True 8000
                   (updateSolutionEffectiveness ''p1'' True 7000 sample_cache)))) ''p1'' = Some s3
          \<and> confidence_score s3 = 100 \<and> success_rate s3 = 85.42"
    using update_effectiveness_contract [OF h, of False 7000 7000 8000 9000] v
    by (auto simp: Let_def)
  from h v a b show ?thesis by simp
qed


section \<open>Properties of the scheduler\<close>

lemma list9:
  assumes "length (xs :: 'a list) = 9"
  shows "\<exists>a b c d e f g h i. xs = [a, b, c, d, e, f, g, h, i]"
  using assms by (auto simp: numeral_eq_Suc length_Suc_conv)

lemma take12_base64_nine:
  "take 12 (base64 (a # b # c # d # e # f # g # h # i # rest)) = base64 [a, b, c, d, e, f, g, h, i]"
  by (simp add: Let_def)

lemma take12_base64_take9:
  assumes "9 \<le> length bs"
  shows "take 12 (base64 bs) = base64 (take 9 bs)"
proof -
  have "length (take 9 bs) = 9" using assms by simp
  then obtain a b c d e f g h i where t: "take 9 bs = [a, b, c, d, e, f, g, h, i]"
    using list9 by blast
  have "take 9 bs @ drop 9 bs = bs" by simp
  then have bs: "bs = a # b # c # d # e # f # g # h # i # drop 9 bs"
    unfolding t by simp
  show ?thesis
    unfolding t by (subst bs) (rule take12_base64_nine)
qed

text \<open>
  Twelve Base64 characters carry nine bytes: once the message has nine bytes, the
  identifier depends on nothing but those, neither on the rest of the message nor on the
  repository or the time.
\<close>

lemma generateErrorId_prefix:
  assumes "9 \<le> length (error_message e)"
  shows "generateErrorId now e = ''error_'' @ base64 (map of_char (take 9 (error_message e)))"
proof -
  let ?content = "error_message e @ ''_'' @ repo_context e @ ''_'' @ dec now"
  have "9 \<le> length (map of_char ?content :: nat list)" using assms by simp
  then have "take 12 (base64 (map of_char ?content)) = base64 (take 9 (map of_char ?content))"
    by (rule take12_base64_take9)
  also have "take 9 (map of_char ?content :: nat list) = map of_char (take 9 (error_message e))"
    using assms by (simp add: take_map)
  finally show ?thesis
    by (simp only: generateErrorId_def Let_def)
qed

lemma type_error_ids:
  "generateErrorId t1 ctx_type_error_a = generateErrorId t2 ctx_type_error_b"
proof -
  have "generateErrorId t1 ctx_type_error_a
        = ''error_'' @ base64 (map of_char (take 9 (error_message ctx_type_error_a)))"
    by (rule generateErrorId_prefix) (simp add: ctx_type_error_a_def)
  moreover have "generateErrorId t2 ctx_type_error_b
        = ''error_'' @ base64 (map of_char (take 9 (error_message ctx_type_error_b)))"
    by (rule generateErrorId_prefix) (simp add: ctx_type_error_b_def)
  moreover have "take 9 (error_message ctx_type_error_a) = take 9 (error_message ctx_type_error_b)"
    by (simp add: ctx_type_error_a_def ctx_type_error_b_def)
  ultimately show ?thesis by simp
qed

lemmas priority_defs =
  determinePriority_def isProductionError_def isSecurityError_def isBuildError_def
  isAPIError_def isDevelopmentError_def isTestError_def env_environment_def
  toLowerCase_def lower_char_def

lemma type_error_priorities:
  "determinePriority ctx_type_error_a = Low" "determinePriority ctx_type_error_b = Low"
  by (simp_all add: priority_defs ctx_type_error_a_def ctx_type_error_b_def)

lemma count_update:
  assumes "distinct (map fst al)"
  shows "length (filter P (map snd (AList.update k v al))) =
         length (filter (\<lambda>(k', q). k' \<noteq> k \<and> P q) al) + (if P v then 1 else 0)"
  using assms
proof (induction al)
  case Nil
  show ?case by simp
next
  case (Cons a al)
  obtain k' q where a: "a = (k', q)" by (cases a)
  show ?case
  proof (cases "k' = k")
    case True
    with Cons.prems a have "k \<notin> fst ` set al" by auto
    then have "filter (\<lambda>(k', q). k' \<noteq> k \<and> P q) al = filter (\<lambda>x. P (snd x)) al"
      by (intro filter_cong) (auto simp: image_iff)
    moreover have "length (filter (\<lambda>x. P (snd x)) al) = length (filter P (map snd al))"
      by (simp add: filter_map o_def)
    ultimately show ?thesis using True a by simp
  next
    case False
    with Cons a show ?thesis by simp
  qed
qed

lemma count_fresh:
  assumes "map_of al k = None"
  shows "length (filter (\<lambda>(k', q). k' \<noteq> k \<and> P q) al) = length (filter P (map snd al))"
proof -
  from assms have "k \<notin> fst ` set al" by (simp add: map_of_eq_None_iff)
  then have "filter (\<lambda>(k', q). k' \<noteq> k \<and> P q) al = filter (\<lambda>x. P (snd x)) al"
    by (intro filter_cong) (auto simp: image_iff)
  then show ?thesis by (simp add: filter_map o_def)
qed

lemma errorQueue_queueForClaudeAnalysis:
  "errorQueue (snd (queueForClaudeAnalysis now e sch)) =
     AList.update (generateErrorId now e) (new_queuedError now e) (errorQueue sch)"
  by (simp add: queueForClaudeAnalysis_def Let_def new_queuedError_def)

lemma position_queueForClaudeAnalysis:
  "position (fst (queueForClaudeAnalysis now e sch)) =
     calculateQueuePosition (snd (queueForClaudeAnalysis now e sch)) (new_queuedError now e)"
  by (simp add: queueForClaudeAnalysis_def Let_def)

lemma queueForClaudeAnalysis_result:
  "fst (queueForClaudeAnalysis now e sch) =
     \<lparr>position = calculateQueuePosition (snd (queueForClaudeAnalysis now e sch)) (new_queuedError now e),
      estimated_time = estimateProcessingTime
        (calculateQueuePosition (snd (queueForClaudeAnalysis now e sch)) (new_queuedError now e))
        (determinePriority e),
      cost_estimate = estimateProcessingCost e\<rparr>"
  "snd (queueForClaudeAnalysis now e sch) =
     sch\<lparr>errorQueue := AList.update (generateErrorId now e) (new_queuedError now e) (errorQueue sch)\<rparr>"
  by (simp_all add: queueForClaudeAnalysis_def Let_def new_queuedError_def)

text \<open>
  C10, as amended (queue position). The new item is put into the queue under its
  identifier before the position is computed, replacing an item already queued under
  that identifier. With distinct keys in the queue, the position returned is the number of
  previously queued items with another identifier whose priority weight is at least the
  new item's, plus one. So when the identifier was not queued before, it is the number of
  previously queued items of at least that weight plus one; into an empty queue it is 1;
  and it is always at least 1.
\<close>

theorem queue_position_counts_other_ids:
  assumes "distinct (map fst (errorQueue sch))"
  shows "(let (r, sch') = queueForClaudeAnalysis now e sch;
              eid = generateErrorId now e;
              w = priorityWeights (determinePriority e)
          in errorQueue sch' = AList.update eid (new_queuedError now e) (errorQueue sch)
           \<and> position r = calculateQueuePosition sch' (new_queuedError now e)
           \<and> position r =
               length (filter (\<lambda>(k, q). k \<noteq> eid \<and> w \<le> priorityWeights (priority q))
                         (errorQueue sch)) + 1
           \<and> (map_of (errorQueue sch) eid = None \<longrightarrow>
                position r =
                  length (filter (\<lambda>q. w \<le> priorityWeights (priority q))
                            (map snd (errorQueue sch))) + 1)
           \<and> (errorQueue sch = [] \<longrightarrow> position r = 1)
           \<and> 1 \<le> position r)"
proof -
  let ?eid = "generateErrorId now e"
  let ?w = "priorityWeights (determinePriority e)"
  let ?P = "\<lambda>q. ?w \<le> priorityWeights (priority q)"
  let ?r = "fst (queueForClaudeAnalysis now e sch)"
  let ?s = "snd (queueForClaudeAnalysis now e sch)"
  have Pnew: "?P (new_queuedError now e)"
    by (simp add: new_queuedError_def)
  have q: "errorQueue ?s = AList.update ?eid (new_queuedError now e) (errorQueue sch)"
    by (simp add: queueForClaudeAnalysis_result)
  have p: "position ?r = calculateQueuePosition ?s (new_queuedError now e)"
    by (simp add: queueForClaudeAnalysis_result(1))
  have "calculateQueuePosition ?s (new_queuedError now e)
        = length (filter ?P (map snd (AList.update ?eid (new_queuedError now e) (errorQueue sch))))"
    by (simp add: calculateQueuePosition_def Let_def q new_queuedError_def)
  also have "\<dots> = length (filter (\<lambda>(k, q). k \<noteq> ?eid \<and> ?P q) (errorQueue sch)) + 1"
    using count_update [OF assms, of ?P ?eid "new_queuedError now e"] Pnew by simp
  finally have c: "position ?r
        = length (filter (\<lambda>(k, q). k \<noteq> ?eid \<and> ?P q) (errorQueue sch)) + 1"
    using p by simp
  have f: "map_of (errorQueue sch) ?eid = None \<longrightarrow>
           position ?r = length (filter ?P (map snd (errorQueue sch))) + 1"
    using c count_fresh [of "errorQueue sch" ?eid ?P] by simp
  have e: "errorQueue sch = [] \<longrightarrow> position ?r = 1"
    using c by simp
  from q p c f e show ?thesis
    by (simp add: Let_def case_prod_beta)
qed

theorem queue_position_counts_other_ids_witness:
  "distinct (map fst (errorQueue (snd (queueForClaudeAnalysis 1700000000000 ctx_type_error_a empty_scheduler))))
   \<and> position (fst (queueForClaudeAnalysis 1700000005000 ctx_unauthorized
        (snd (queueForClaudeAnalysis 1700000000000 ctx_type_error_a empty_scheduler)))) = 1
   \<and> position (fst (queueForClaudeAnalysis 1700000005000 ctx_type_error_b
        (snd (queueForClaudeAnalysis 1700000000000 ctx_type_error_a empty_scheduler)))) = 1"
proof -
  let ?s1 = "snd (queueForClaudeAnalysis 1700000000000 ctx_type_error_a empty_scheduler)"
  have q1: "errorQueue ?s1 =
      [(generateErrorId 1700000000000 ctx_type_error_a,
        new_queuedError 1700000000000 ctx_type_error_a)]"
    by (simp add: queueForClaudeAnalysis_result empty_scheduler_def)
  have d: "distinct (map fst (errorQueue ?s1))"
    by (simp add: q1)
  have pr: "priority (new_queuedError 1700000000000 ctx_type_error_a) = Low"
    by (simp add: new_queuedError_def type_error_priorities)
  have pc: "determinePriority ctx_unauthorized = Critical"
    by (simp add: priority_defs ctx_unauthorized_def)
  have a: "position (fst (queueForClaudeAnalysis 1700000005000 ctx_unauthorized ?s1)) = 1"
    using queue_position_counts_other_ids [OF d, of 1700000005000 ctx_unauthorized]
    by (simp add: Let_def case_prod_beta q1 pr pc)
  have b: "position (fst (queueForClaudeAnalysis 1700000005000 ctx_type_error_b ?s1)) = 1"
    using queue_position_counts_other_ids [OF d, of 1700000005000 ctx_type_error_b]
      type_error_ids [of 1700000000000 1700000005000]
    by (simp add: Let_def case_prod_beta q1 pr type_error_priorities)
  from d a b show ?thesis by simp
qed

text \<open>
  The claim as stated fails when the identifier is already queued. The same error queued
  twice in the same millisecond has one identifier; and so have two different errors
  whose messages begin with the same nine bytes. In both cases the second item replaces
  the first, and the position returned for it is 1, although one item of the same weight
  was queued before it, which would make 2.
\<close>

theorem queue_position_counterexample:
  "position (fst (queueForClaudeAnalysis 1700000000000 ctx_type_error_a
        (snd (queueForClaudeAnalysis 1700000000000 ctx_type_error_a empty_scheduler))))
   \<noteq> calculateQueuePosition
        (snd (queueForClaudeAnalysis 1700000000000 ctx_type_error_a empty_scheduler))
        (new_queuedError 1700000000000 ctx_type_error_a) + 1
   \<and> position (fst (queueForClaudeAnalysis 1700000005000 ctx_type_error_b
        (snd (queueForClaudeAnalysis 1700000000000 ctx_type_error_a empty_scheduler))))
   \<noteq> calculateQueuePosition
        (snd (queueForClaudeAnalysis 1700000000000 ctx_type_error_a empty_scheduler))
        (new_queuedError 1700000005000 ctx_type_error_b) + 1"
proof -
  let ?s1 = "snd (queueForClaudeAnalysis 1700000000000 ctx_type_error_a empty_scheduler)"
  have q1: "errorQueue ?s1 =
      [(generateErrorId 1700000000000 ctx_type_error_a,
        new_queuedError 1700000000000 ctx_type_error_a)]"
    by (simp add: errorQueue_queueForClaudeAnalysis empty_scheduler_def)
  have again: "position (fst (queueForClaudeAnalysis t e ?s1)) = 1
        \<and> calculateQueuePosition ?s1 (new_queuedError t e) = 1"
    if same: "generateErrorId t e = generateErrorId 1700000000000 ctx_type_error_a"
      and low: "determinePriority e = Low" for t e
  proof -
    have prev: "calculateQueuePosition ?s1 (new_queuedError t e) = 1"
      by (simp add: calculateQueuePosition_def Let_def q1 new_queuedError_def
          type_error_priorities low)
    have "errorQueue (snd (queueForClaudeAnalysis t e ?s1)) =
        AList.update (generateErrorId t e) (new_queuedError t e) (errorQueue ?s1)"
      by (rule errorQueue_queueForClaudeAnalysis)
    also have "\<dots> = [(generateErrorId t e, new_queuedError t e)]"
      using same by (simp add: q1)
    finally have q2: "errorQueue (snd (queueForClaudeAnalysis t e ?s1)) =
        [(generateErrorId t e, new_queuedError t e)]" .
    have "position (fst (queueForClaudeAnalysis t e ?s1))
          = calculateQueuePosition (snd (queueForClaudeAnalysis t e ?s1)) (new_queuedError t e)"
      by (rule position_queueForClaudeAnalysis)
    also have "\<dots> = 1"
      by (simp add: calculateQueuePosition_def Let_def q2)
    finally show ?thesis using prev by simp
  qed
  from again [of 1700000000000 ctx_type_error_a] again [of 1700000005000 ctx_type_error_b]
    type_error_ids [of 1700000005000 1700000000000] type_error_ids [of 1700000000000 1700000005000]
    type_error_priorities
  show ?thesis by simp
qed

lemma unauthorized_item:
  "priority (new_queuedError now ctx_unauthorized) = Critical"
  "estimated_cost (new_queuedError now ctx_unauthorized) = 0.05"
  "retry_count (new_queuedError now ctx_unauthorized) = 0"
  "error_id (new_queuedError now ctx_unauthorized) = generateErrorId now ctx_unauthorized"
  by (simp_all add: new_queuedError_def priority_defs estimateProcessingCost_def
      ctx_unauthorized_def)

text \<open>
  The handler by itself, for an item that was taken out of the queue before its dispatch:
  after a failed dispatch the item is queued again with one more retry while that count is
  below 3, and is left out of the queue once it reaches 3.
\<close>

lemma processBatchWithClaude_failed_single:
  assumes "raises [q]" and "map_of (errorQueue sch) (error_id q) = None"
  shows "map_of (errorQueue (processBatchWithClaude raises [q] sch)) =
           (if retry_count q + 1 < 3
            then (map_of (errorQueue sch))(error_id q \<mapsto> q\<lparr>retry_count := retry_count q + 1\<rparr>)
            else map_of (errorQueue sch))"
  using assms by (simp add: processBatchWithClaude_def requeue_def Let_def update_conv')

lemma processBatchWithClaude_ok:
  "\<not> raises batch \<Longrightarrow> processBatchWithClaude raises batch sch = sch"
  by (simp add: processBatchWithClaude_def)

text \<open>
  C6 (retry and drop handling), evaluated where the code departs from it. One critical
  item is queued and the critical lane dispatches it; the dispatch raises. The handler of
  \<open>processBatchWithClaude\<close> increments \<open>retry_count\<close> to 1 and puts the item into the
  queue again, as it does for a batch whose items were taken out of the queue before the
  dispatch; but \<open>processCriticalErrors\<close> deletes the item after the call, so that the
  queue is empty: the item was not dispatched, has not reached three retries and is no
  longer queued. Likewise an item is lost without any dispatch when a later error with
  the same first nine bytes of message is queued over it.
\<close>

theorem failed_dispatch_loses_item:
  "errorQueue (snd (queueForClaudeAnalysis 1700000000000 ctx_unauthorized empty_scheduler))
     = [(generateErrorId 1700000000000 ctx_unauthorized,
         new_queuedError 1700000000000 ctx_unauthorized)]
   \<and> errorQueue (processBatchWithClaude (\<lambda>batch. True)
        [new_queuedError 1700000000000 ctx_unauthorized] empty_scheduler)
     = [(generateErrorId 1700000000000 ctx_unauthorized,
         (new_queuedError 1700000000000 ctx_unauthorized)\<lparr>retry_count := 1\<rparr>)]
   \<and> errorQueue (processCriticalErrors (\<lambda>batch. True) dailyBudgetLimit
        (snd (queueForClaudeAnalysis 1700000000000 ctx_unauthorized empty_scheduler)))
     = []
   \<and> map (error_message \<circ> error_context \<circ> snd)
        (errorQueue (snd (queueForClaudeAnalysis 1700000005000 ctx_type_error_b
           (snd (queueForClaudeAnalysis 1700000000000 ctx_type_error_a empty_scheduler)))))
     = [''TypeError: b is not a function'']"
proof -
  let ?q = "new_queuedError 1700000000000 ctx_unauthorized"
  let ?k = "generateErrorId 1700000000000 ctx_unauthorized"
  let ?s0 = "snd (queueForClaudeAnalysis 1700000000000 ctx_unauthorized empty_scheduler)"
  have q0: "errorQueue ?s0 = [(?k, ?q)]"
    by (simp add: errorQueue_queueForClaudeAnalysis empty_scheduler_def)
  have h: "errorQueue (processBatchWithClaude (\<lambda>batch. True) [?q] empty_scheduler)
           = [(?k, ?q\<lparr>retry_count := 1\<rparr>)]"
    by (simp add: processBatchWithClaude_def requeue_def Let_def unauthorized_item
        empty_scheduler_def)
  have r: "errorQueue (requeue ?q ?s0) = [(?k, ?q\<lparr>retry_count := 1\<rparr>)]"
    by (simp add: requeue_def Let_def unauthorized_item q0)
  have c: "errorQueue (processCriticalErrors (\<lambda>batch. True) dailyBudgetLimit ?s0) = []"
    by (simp add: processCriticalErrors_def Let_def q0 unauthorized_item dailyBudgetLimit_def
        processBatchWithClaude_def r)
  let ?s1 = "snd (queueForClaudeAnalysis 1700000000000 ctx_type_error_a empty_scheduler)"
  have q1: "errorQueue ?s1 =
      [(generateErrorId 1700000000000 ctx_type_error_a,
        new_queuedError 1700000000000 ctx_type_error_a)]"
    by (simp add: errorQueue_queueForClaudeAnalysis empty_scheduler_def)
  have "errorQueue (snd (queueForClaudeAnalysis 1700000005000 ctx_type_error_b ?s1)) =
      AList.update (generateErrorId 1700000005000 ctx_type_error_b)
        (new_queuedError 1700000005000 ctx_type_error_b) (errorQueue ?s1)"
    by (rule errorQueue_queueForClaudeAnalysis)
  also have "\<dots> = [(generateErrorId 1700000005000 ctx_type_error_b,
        new_queuedError 1700000005000 ctx_type_error_b)]"
    using type_error_ids [of 1700000000000 1700000005000] by (simp add: q1)
  finally have o: "map (error_message \<circ> error_context \<circ> snd)
        (errorQueue (snd (queueForClaudeAnalysis 1700000005000 ctx_type_error_b ?s1)))
     = [''TypeError: b is not a function'']"
    by (simp add: new_queuedError_def ctx_type_error_b_def)
  from q0 h c o show ?thesis by blast
qed


section \<open>Properties of the local pattern engine\<close>

text \<open>
  The confidence of a pattern whose signature matches: 70, plus 20, plus 10 for each of
  the three hints that pair a word in the pattern's type with a word in the repository
  context, capped at 100.
\<close>

lemma calculateConfidence_matching:
  assumes "regex_test (signature p) text"
  shows "calculateConfidence regex_test p e text =
           min (70 + 20 + 10 * real (length (filter
                  (\<lambda>(t, r). repo_context e \<noteq> [] \<and> str_includes (ep_type p) t
                            \<and> str_includes (toLowerCase (repo_context e)) r)
                  [(''python'', ''python''), (''javascript'', ''node''),
                   (''docker'', ''docker'')]))) 100"
  using assms by (simp add: calculateConfidence_def Let_def)

lemma calculateConfidence_matching_ge:
  assumes "regex_test (signature p) text"
  shows "90 \<le> calculateConfidence regex_test p e text"
  using assms by (simp add: calculateConfidence_def Let_def)

text \<open>The loop ends with a qualifying pattern of the highest confidence, if there is one.\<close>

lemma test_pattern_cases:
  "test_pattern regex_test elapsed e a b =
     (if qualifies regex_test e (snd a)
         \<and> confidence b < calculateConfidence regex_test (snd a) e (combinedText_of e)
      then match_of regex_test elapsed e a else b)"
  by (auto simp: test_pattern_def qualifies_def match_of_def Let_def)

lemma confidence_match_of [simp]:
  "confidence (match_of regex_test elapsed e a) =
     calculateConfidence regex_test (snd a) e (combinedText_of e)"
  by (simp add: match_of_def)

lemma fold_test_pattern_mono:
  "confidence b \<le> confidence (fold (test_pattern regex_test elapsed e) ps b)"
proof (induction ps arbitrary: b)
  case Nil
  show ?case by simp
next
  case (Cons a ps)
  have "confidence b \<le> confidence (test_pattern regex_test elapsed e a b)"
    by (simp add: test_pattern_cases)
  also have "\<dots> \<le> confidence (fold (test_pattern regex_test elapsed e) ps
                        (test_pattern regex_test elapsed e a b))"
    by (rule Cons.IH)
  finally show ?case by simp
qed

lemma fold_test_pattern_max:
  assumes "a \<in> set ps" "qualifies regex_test e (snd a)"
  shows "calculateConfidence regex_test (snd a) e (combinedText_of e)
           \<le> confidence (fold (test_pattern regex_test elapsed e) ps b)"
  using assms
proof (induction ps arbitrary: b)
  case Nil
  then show ?case by simp
next
  case (Cons x ps)
  show ?case
  proof (cases "a = x")
    case True
    have "calculateConfidence regex_test (snd a) e (combinedText_of e)
            \<le> confidence (test_pattern regex_test elapsed e x b)"
      using True Cons.prems(2) by (simp add: test_pattern_cases)
    also have "\<dots> \<le> confidence (fold (test_pattern regex_test elapsed e) ps
                          (test_pattern regex_test elapsed e x b))"
      by (rule fold_test_pattern_mono)
    finally show ?thesis by simp
  next
    case False
    with Cons.prems have "a \<in> set ps" by simp
    from Cons.IH [OF this Cons.prems(2)] show ?thesis by simp
  qed
qed

lemma fold_test_pattern_result:
  "fold (test_pattern regex_test elapsed e) ps b = b
   \<or> (\<exists>a \<in> set ps. qualifies regex_test e (snd a)
         \<and> fold (test_pattern regex_test elapsed e) ps b = match_of regex_test elapsed e a)"
proof (induction ps arbitrary: b)
  case Nil
  show ?case by simp
next
  case (Cons x ps)
  from Cons.IH [of "test_pattern regex_test elapsed e x b"]
  show ?case by (auto simp: test_pattern_cases split: if_splits)
qed

lemma matchErrorPattern_miss:
  assumes "map_of (signatureCache eng) (createErrorSignature e) = None"
  shows "matchErrorPattern regex_test elapsed e eng =
           ((fold (test_pattern regex_test elapsed e) (patterns eng) unmatched)
              \<lparr>processing_time := elapsed\<rparr>,
            eng\<lparr>signatureCache :=
                  AList.update (createErrorSignature e)
                    ((fold (test_pattern regex_test elapsed e) (patterns eng) unmatched)
                       \<lparr>processing_time := elapsed\<rparr>)
                    (signatureCache eng)\<rparr>)"
  using assms by (simp add: matchErrorPattern_def Let_def)

lemma matchErrorPattern_hit:
  assumes "map_of (signatureCache eng) (createErrorSignature e) = Some m"
  shows "matchErrorPattern regex_test elapsed e eng = (m\<lparr>processing_time := elapsed\<rparr>, eng)"
  using assms by (simp add: matchErrorPattern_def Let_def)

text \<open>
  What a call computes when the memo table has no entry under the error's signature key:
  it tests the lower-cased text of the message, a space and the stack trace against the
  signature of every pattern; the confidence of a matching pattern is 70, plus 20, plus 10
  for each aligned hint, capped at 100; the result is the match of a qualifying pattern
  whose confidence no other qualifying pattern exceeds, or the unmatched result when no
  pattern qualifies; and the result is stored under the signature key.
\<close>

lemma matchErrorPattern_on_miss:
  assumes "map_of (signatureCache eng) (createErrorSignature e) = None"
  shows "(let (m, eng') = matchErrorPattern regex_test elapsed e eng;
              text = combinedText_of e
          in text = toLowerCase (error_message e @ '' '' @
                      (case stack_trace e of None \<Rightarrow> [] | Some st \<Rightarrow> st))
           \<and> (\<forall>a \<in> set (patterns eng). regex_test (signature (snd a)) text \<longrightarrow>
                 calculateConfidence regex_test (snd a) e text =
                   min (70 + 20 + 10 * real (length (filter
                          (\<lambda>(t, r). repo_context e \<noteq> [] \<and> str_includes (ep_type (snd a)) t
                                    \<and> str_includes (toLowerCase (repo_context e)) r)
                          [(''python'', ''python''), (''javascript'', ''node''),
                           (''docker'', ''docker'')]))) 100)
           \<and> ((\<exists>a \<in> set (patterns eng). qualifies regex_test e (snd a)) \<longrightarrow>
                (\<exists>a \<in> set (patterns eng). qualifies regex_test e (snd a)
                   \<and> m = match_of regex_test elapsed e a
                   \<and> (\<forall>a' \<in> set (patterns eng). qualifies regex_test e (snd a') \<longrightarrow>
                         calculateConfidence regex_test (snd a') e text \<le> confidence m)))
           \<and> ((\<forall>a \<in> set (patterns eng). \<not> qualifies regex_test e (snd a)) \<longrightarrow>
                m = unmatched\<lparr>processing_time := elapsed\<rparr>
                \<and> m_pattern_id m = ''unknown'' \<and> m_pattern_type m = ''unmatched''
                \<and> confidence m = 0
                \<and> suggested_actions m = [''Queue for Claude analysis - novel error pattern''])
           \<and> map_of (signatureCache eng') (createErrorSignature e) = Some m
           \<and> patterns eng' = patterns eng
           \<and> fst (matchErrorPattern regex_test elapsed' e eng') = m\<lparr>processing_time := elapsed'\<rparr>)"
proof -
  let ?text = "combinedText_of e"
  let ?r = "fold (test_pattern regex_test elapsed e) (patterns eng) unmatched"
  let ?m = "?r\<lparr>processing_time := elapsed\<rparr>"
  let ?eng' = "eng\<lparr>signatureCache := AList.update (createErrorSignature e) ?m (signatureCache eng)\<rparr>"
  have run: "matchErrorPattern regex_test elapsed e eng = (?m, ?eng')"
    by (rule matchErrorPattern_miss [OF assms])
  have tcomb: "?text = toLowerCase (error_message e @ '' '' @
                      (case stack_trace e of None \<Rightarrow> [] | Some st \<Rightarrow> st))"
    by (simp add: combinedText_of_def stack_or_empty_def)
  have conf: "\<forall>a \<in> set (patterns eng). regex_test (signature (snd a)) ?text \<longrightarrow>
                 calculateConfidence regex_test (snd a) e ?text =
                   min (70 + 20 + 10 * real (length (filter
                          (\<lambda>(t, r). repo_context e \<noteq> [] \<and> str_includes (ep_type (snd a)) t
                                    \<and> str_includes (toLowerCase (repo_context e)) r)
                          [(''python'', ''python''), (''javascript'', ''node''),
                           (''docker'', ''docker'')]))) 100"
    using calculateConfidence_matching by blast
  have best: "(\<exists>a \<in> set (patterns eng). qualifies regex_test e (snd a)) \<longrightarrow>
                (\<exists>a \<in> set (patterns eng). qualifies regex_test e (snd a)
                   \<and> ?m = match_of regex_test elapsed e a
                   \<and> (\<forall>a' \<in> set (patterns eng). qualifies regex_test e (snd a') \<longrightarrow>
                         calculateConfidence regex_test (snd a') e ?text \<le> confidence ?m))"
  proof
    assume "\<exists>a \<in> set (patterns eng). qualifies regex_test e (snd a)"
    then obtain a0 where a0: "a0 \<in> set (patterns eng)" "qualifies regex_test e (snd a0)"
      by blast
    have "90 \<le> calculateConfidence regex_test (snd a0) e ?text"
      using a0(2) by (simp add: qualifies_def calculateConfidence_matching_ge)
    also have "\<dots> \<le> confidence ?r"
      by (rule fold_test_pattern_max [OF a0])
    finally have "?r \<noteq> unmatched"
      by (auto simp: unmatched_def)
    with fold_test_pattern_result [of regex_test elapsed e "patterns eng" unmatched]
    obtain a where a: "a \<in> set (patterns eng)" "qualifies regex_test e (snd a)"
      "?r = match_of regex_test elapsed e a"
      by blast
    have m: "?m = match_of regex_test elapsed e a"
      by (simp add: a(3)) (simp add: match_of_def)
    have "\<forall>a' \<in> set (patterns eng). qualifies regex_test e (snd a') \<longrightarrow>
            calculateConfidence regex_test (snd a') e ?text \<le> confidence ?m"
      using fold_test_pattern_max [of _ "patterns eng" regex_test e elapsed unmatched] by simp
    with a m show "\<exists>a \<in> set (patterns eng). qualifies regex_test e (snd a)
                   \<and> ?m = match_of regex_test elapsed e a
                   \<and> (\<forall>a' \<in> set (patterns eng). qualifies regex_test e (snd a') \<longrightarrow>
                         calculateConfidence regex_test (snd a') e ?text \<le> confidence ?m)"
      by blast
  qed
  have none: "(\<forall>a \<in> set (patterns eng). \<not> qualifies regex_test e (snd a)) \<longrightarrow>
                ?m = unmatched\<lparr>processing_time := elapsed\<rparr>
                \<and> m_pattern_id ?m = ''unknown'' \<and> m_pattern_type ?m = ''unmatched''
                \<and> confidence ?m = 0
                \<and> suggested_actions ?m = [''Queue for Claude analysis - novel error pattern'']"
  proof
    assume "\<forall>a \<in> set (patterns eng). \<not> qualifies regex_test e (snd a)"
    with fold_test_pattern_result [of regex_test elapsed e "patterns eng" unmatched]
    have "?r = unmatched" by blast
    then show "?m = unmatched\<lparr>processing_time := elapsed\<rparr>
                \<and> m_pattern_id ?m = ''unknown'' \<and> m_pattern_type ?m = ''unmatched''
                \<and> confidence ?m = 0
                \<and> suggested_actions ?m = [''Queue for Claude analysis - novel error pattern'']"
      by (simp add: unmatched_def)
  qed
  have memo: "map_of (signatureCache ?eng') (createErrorSignature e) = Some ?m"
    by (simp add: update_conv')
  have pats: "patterns ?eng' = patterns eng"
    by simp
  have again: "fst (matchErrorPattern regex_test elapsed' e ?eng') = ?m\<lparr>processing_time := elapsed'\<rparr>"
    by (simp add: matchErrorPattern_hit [OF memo])
  from tcomb conf best none memo pats again show ?thesis
    unfolding run Let_def prod.case by blast
qed

lemma socket_keys: "createErrorSignature ctx_socket_2 = createErrorSignature ctx_socket_1"
  by (simp add: createErrorSignature_def stack_or_empty_def ctx_socket_1_def ctx_socket_2_def)

lemma new_engine_memo: "map_of (signatureCache new_LocalPatternEngine) k = None"
  by (simp add: new_LocalPatternEngine_def)

lemma socket_1_fresh:
  "fst (matchErrorPattern regex_test_i 5 ctx_socket_1 new_LocalPatternEngine) =
     \<lparr>m_pattern_id = ''js_http_bridge_timeout'', m_pattern_type = ''javascript_network_error'',
      confidence = 90, processing_time = 5,
      suggested_actions = [''Add retry mechanism with await retry(func, {retries: 3})'',
        ''Increase timeout: {timeout: 30000}'', ''Implement circuit breaker pattern'']\<rparr>"
  by code_simp

lemma socket_2_fresh:
  "fst (matchErrorPattern regex_test_i 5 ctx_socket_2 new_LocalPatternEngine) =
     unmatched\<lparr>processing_time := 5\<rparr>"
  by code_simp

lemma matchErrorPattern_on_miss_socket_2:
  "map_of (signatureCache new_LocalPatternEngine) (createErrorSignature ctx_socket_2) = None
   \<and> m_pattern_id (fst (matchErrorPattern regex_test_i 5 ctx_socket_2 new_LocalPatternEngine))
       = ''unknown''
   \<and> fst (matchErrorPattern regex_test_i 7 ctx_socket_2
            (snd (matchErrorPattern regex_test_i 5 ctx_socket_2 new_LocalPatternEngine)))
       = unmatched\<lparr>processing_time := 7\<rparr>"
proof -
  have h: "map_of (signatureCache new_LocalPatternEngine) (createErrorSignature ctx_socket_2) = None"
    by (rule new_engine_memo)
  from matchErrorPattern_on_miss [OF h, of regex_test_i 5 7] socket_2_fresh h
  show ?thesis
    by (simp add: Let_def case_prod_beta unmatched_def)
qed

lemma socket_2_no_pattern:
  "list_ex (qualifies regex_test_i ctx_socket_2) builtin_patterns = False"
  by code_simp

text \<open>
  C3 (classifier match contract), evaluated where the code departs from it. The claim
  says that for every error the match is decided by testing the lower-cased message and
  stack trace against every signature, and that an error for which no pattern qualifies
  gets the unmatched result with confidence 0 and the directive to escalate. The code
  first looks the error up in its memo table, under a key that joins message, stack trace
  and repository with underscores, so the errors ("socket hang", "up_x", "r") and
  ("socket hang_up", "x", "r") share the key "socket hang_up_x_r". No pattern of the
  built-in database qualifies for the second error, and on a new engine it gets the
  unmatched result; asked after the first error, it gets the first error's match
  \<open>js_http_bridge_timeout\<close> with confidence 90.
\<close>

theorem matchErrorPattern_key_collision:
  "createErrorSignature ctx_socket_2 = createErrorSignature ctx_socket_1
   \<and> list_ex (qualifies regex_test_i ctx_socket_2) builtin_patterns = False
   \<and> fst (matchErrorPattern regex_test_i 5 ctx_socket_2 new_LocalPatternEngine)
     = unmatched\<lparr>processing_time := 5\<rparr>
   \<and> fst (matchErrorPattern regex_test_i 5 ctx_socket_2
            (snd (matchErrorPattern regex_test_i 5 ctx_socket_1 new_LocalPatternEngine)))
     = \<lparr>m_pattern_id = ''js_http_bridge_timeout'', m_pattern_type = ''javascript_network_error'',
        confidence = 90, processing_time = 5,
        suggested_actions = [''Add retry mechanism with await retry(func, {retries: 3})'',
          ''Increase timeout: {timeout: 30000}'', ''Implement circuit breaker pattern'']\<rparr>"
proof -
  let ?m = "fst (matchErrorPattern regex_test_i 5 ctx_socket_1 new_LocalPatternEngine)"
  let ?eng = "snd (matchErrorPattern regex_test_i 5 ctx_socket_1 new_LocalPatternEngine)"
  have "map_of (signatureCache ?eng) (createErrorSignature ctx_socket_1) = Some ?m"
    by (simp add: matchErrorPattern_miss [OF new_engine_memo] update_conv')
  then have "map_of (signatureCache ?eng) (createErrorSignature ctx_socket_2) = Some ?m"
    by (simp add: socket_keys)
  then have "fst (matchErrorPattern regex_test_i 5 ctx_socket_2 ?eng) = ?m\<lparr>processing_time := 5\<rparr>"
    by (simp add: matchErrorPattern_hit)
  then show ?thesis
    by (simp add: socket_keys socket_2_no_pattern socket_1_fresh socket_2_fresh)
qed


section \<open>Properties of the Claude interface\<close>

lemma parseStructuredResponse_try_Inr:
  assumes "parseStructuredResponse_try json_parse c = Inr r"
  shows "\<exists>textContent jsonText p.
           (c = CText textContent \<or> c = CString textContent)
         \<and> match_json_block textContent = Some jsonText \<and> json_parse jsonText = Some p
         \<and> r = p\<lparr>pr_patterns := Some (or_list (pr_patterns p) []),
                  pr_novel_insights := Some (or_list (pr_novel_insights p) [])\<rparr>"
  using assms
  by (cases c)
     (auto simp: parseStructuredResponse_try_def Let_def or_list_def
           split: option.splits if_splits)

lemma parseStructuredResponse_text:
  assumes "c = CText textContent \<or> c = CString textContent"
  shows "parseStructuredResponse json_parse c =
           (case match_json_block textContent of
              None \<Rightarrow> failed_parse_result
            | Some jsonText \<Rightarrow>
                (case json_parse jsonText of
                   None \<Rightarrow> failed_parse_result
                 | Some p \<Rightarrow> p\<lparr>pr_patterns := Some (or_list (pr_patterns p) []),
                                pr_novel_insights := Some (or_list (pr_novel_insights p) [])\<rparr>))"
  using assms
  by (auto simp: parseStructuredResponse_def parseStructuredResponse_try_def Let_def or_list_def
           split: option.splits)

lemma parseStructuredResponse_no_text:
  "parseStructuredResponse json_parse CUndefined = failed_parse_result"
  "parseStructuredResponse json_parse COther = failed_parse_result"
  by (simp_all add: parseStructuredResponse_def parseStructuredResponse_try_def)

lemma analyzeBatchWithBudget_success:
  assumes "can_proceed (tracker_checkDailyBudget tz now tr)"
    and "api (createBatchAnalysisPrompt stringify (optimizeForCostEfficiency errorBatch) cross)
           = ApiResponse (c # cs)"
    and "c \<noteq> CUndefined"
  shows "\<exists>tokensUsed.
           estimateTokenUsage
             (createBatchAnalysisPrompt stringify (optimizeForCostEfficiency errorBatch) cross) c
             = Some tokensUsed
         \<and> analyzeBatchWithBudget tz stringify json_parse api now later errorBatch cross tr =
            (Inr \<lparr>patterns_found = or_list (pr_patterns (parseStructuredResponse json_parse c)) [],
                  novel_insights = or_list (pr_novel_insights (parseStructuredResponse json_parse c)) [],
                  cross_repo_correlations =
                    or_list (pr_cross_repo_correlations (parseStructuredResponse json_parse c)) [],
                  api_cost = calculateCallCost tokensUsed,
                  analysis_time = later - now,
                  analysis_tokens = tokensUsed\<rparr>,
             recordUsage \<lparr>tokens_used = tokensUsed, cost = calculateCallCost tokensUsed,
                          model = ''claude-3-haiku-20240307'', usage_timestamp = later,
                          batch_size = length (optimizeForCostEfficiency errorBatch)\<rparr> tr)"
  using assms
  by (cases c)
     (simp_all add: analyzeBatchWithBudget_def Let_def first_content_def estimateTokenUsage_def)

text \<open>
  C9 (gateway response parsing never raises). Every exception inside
  \<open>parseStructuredResponse\<close> is caught: when the content has no text, when no JSON block is
  found in the text, or when \<open>JSON.parse\<close> rejects the block, the result is the empty
  result, with empty lists of patterns, insights and correlations and the note "Failed to
  parse structured response". When the block parses, the result is the parsed object with
  a missing \<open>patterns\<close> or \<open>novel_insights\<close> set to the empty list. In both cases
  \<open>analyzeBatchWithBudget\<close>, once the service has answered with a content block, returns a
  result whose three lists are those of the parse, with the empty list for a missing one.
\<close>

theorem parse_never_raises:
  "(parseStructuredResponse_try json_parse c = Inl e \<longrightarrow>
      parseStructuredResponse json_parse c = failed_parse_result)
   \<and> pr_patterns failed_parse_result = Some []
   \<and> pr_novel_insights failed_parse_result = Some []
   \<and> pr_cross_repo_correlations failed_parse_result = Some []
   \<and> pr_processing_notes failed_parse_result = Some ''Failed to parse structured response''
   \<and> (c = CUndefined \<or> c = COther
        \<or> ((c = CText textContent \<or> c = CString textContent)
            \<and> (match_json_block textContent = None
                \<or> (\<exists>jsonText. match_json_block textContent = Some jsonText
                      \<and> json_parse jsonText = None))) \<longrightarrow>
      parseStructuredResponse json_parse c = failed_parse_result)
   \<and> ((c = CText textContent \<or> c = CString textContent)
        \<and> match_json_block textContent = Some jsonText \<and> json_parse jsonText = Some p \<longrightarrow>
      parseStructuredResponse json_parse c =
        p\<lparr>pr_patterns := Some (or_list (pr_patterns p) []),
          pr_novel_insights := Some (or_list (pr_novel_insights p) [])\<rparr>)
   \<and> (can_proceed (tracker_checkDailyBudget tz now tr)
        \<and> api (createBatchAnalysisPrompt stringify (optimizeForCostEfficiency errorBatch) cross)
             = ApiResponse (c # cs)
        \<and> c \<noteq> CUndefined \<longrightarrow>
      (\<exists>res. fst (analyzeBatchWithBudget tz stringify json_parse api now later errorBatch cross tr)
               = Inr res
          \<and> patterns_found res = or_list (pr_patterns (parseStructuredResponse json_parse c)) []
          \<and> novel_insights res
              = or_list (pr_novel_insights (parseStructuredResponse json_parse c)) []
          \<and> cross_repo_correlations res
              = or_list (pr_cross_repo_correlations (parseStructuredResponse json_parse c)) []))"
proof (intro conjI impI)
  assume "parseStructuredResponse_try json_parse c = Inl e"
  then show "parseStructuredResponse json_parse c = failed_parse_result"
    by (simp add: parseStructuredResponse_def)
next
  assume "c = CUndefined \<or> c = COther
        \<or> ((c = CText textContent \<or> c = CString textContent)
            \<and> (match_json_block textContent = None
                \<or> (\<exists>jsonText. match_json_block textContent = Some jsonText
                      \<and> json_parse jsonText = None)))"
  then show "parseStructuredResponse json_parse c = failed_parse_result"
    using parseStructuredResponse_no_text [of json_parse]
      parseStructuredResponse_text [of c textContent json_parse]
    by auto
next
  assume "(c = CText textContent \<or> c = CString textContent)
        \<and> match_json_block textContent = Some jsonText \<and> json_parse jsonText = Some p"
  then show "parseStructuredResponse json_parse c =
        p\<lparr>pr_patterns := Some (or_list (pr_patterns p) []),
          pr_novel_insights := Some (or_list (pr_novel_insights p) [])\<rparr>"
    using parseStructuredResponse_text [of c textContent json_parse] by auto
next
  assume a: "can_proceed (tracker_checkDailyBudget tz now tr)
        \<and> api (createBatchAnalysisPrompt stringify (optimizeForCostEfficiency errorBatch) cross)
             = ApiResponse (c # cs)
        \<and> c \<noteq> CUndefined"
  from analyzeBatchWithBudget_success [of tz now tr api stringify errorBatch cross c cs json_parse later] a
  show "\<exists>res. fst (analyzeBatchWithBudget tz stringify json_parse api now later errorBatch cross tr)
               = Inr res
          \<and> patterns_found res = or_list (pr_patterns (parseStructuredResponse json_parse c)) []
          \<and> novel_insights res
              = or_list (pr_novel_insights (parseStructuredResponse json_parse c)) []
          \<and> cross_repo_correlations res
              = or_list (pr_cross_repo_correlations (parseStructuredResponse json_parse c)) []"
    by auto
qed (simp_all add: failed_parse_result_def)

theorem parse_never_raises_witness:
  "parseStructuredResponse_try sample_json_parse (CText ''I learned nothing'')
     = Inl (Error ''No JSON found in Claude response'')
   \<and> parseStructuredResponse sample_json_parse (CText ''I learned nothing'') = failed_parse_result
   \<and> match_json_block sample_response = Some sample_response
   \<and> parseStructuredResponse sample_json_parse (CText sample_response)
       = \<lparr>pr_patterns = Some [pattern_p1], pr_novel_insights = Some [],
          pr_cross_repo_correlations = None, pr_processing_notes = None\<rparr>"
proof -
  have t: "parseStructuredResponse_try sample_json_parse (CText ''I learned nothing'')
     = Inl (Error ''No JSON found in Claude response'')"
    by (simp add: parseStructuredResponse_try_def match_json_block_def)
  have m: "match_json_block sample_response = Some sample_response"
    by (simp add: match_json_block_def sample_response_def)
  have j: "sample_json_parse sample_response =
      Some \<lparr>pr_patterns = Some [pattern_p1], pr_novel_insights = None,
            pr_cross_repo_correlations = None, pr_processing_notes = None\<rparr>"
    by (simp add: sample_json_parse_def)
  from parse_never_raises
    [of sample_json_parse "CText ''I learned nothing''" "Error ''No JSON found in Claude response''"]
    t
  have f: "parseStructuredResponse sample_json_parse (CText ''I learned nothing'') = failed_parse_result"
    by blast
  from parse_never_raises
    [of sample_json_parse "CText sample_response" _ sample_response sample_response
        "\<lparr>pr_patterns = Some [pattern_p1], pr_novel_insights = None,
          pr_cross_repo_correlations = None, pr_processing_notes = None\<rparr>"]
    m j
  have s: "parseStructuredResponse sample_json_parse (CText sample_response)
       = \<lparr>pr_patterns = Some [pattern_p1], pr_novel_insights = Some [],
          pr_cross_repo_correlations = None, pr_processing_notes = None\<rparr>"
    by (simp add: or_list_def)
  from t f m s show ?thesis by blast
qed


section \<open>Properties of the server\<close>

lemma dec_17: "dec 17 = ''17''"
  by code_simp

lemma dec_Suc_0: "dec (Suc 0) = ''1''"
  by code_simp

lemma optimizeForCostEfficiency_single: "optimizeForCostEfficiency [e] = [e]"
  by (simp add: optimizeForCostEfficiency_def removeDuplicateErrors_def prioritizeNovelErrors_def
      OPTIMAL_BATCH_SIZE_def Let_def)

lemma sample_prompt_length:
  "length (createBatchAnalysisPrompt sample_stringify [ctx_type_error_a] True) = 1511"
  by (simp add: createBatchAnalysisPrompt_def error_block_def nl_def dec_Suc_0
      ctx_type_error_a_def stack_or_empty_def sample_stringify_def)

lemma sample_tokens:
  "estimateTokenUsage (createBatchAnalysisPrompt sample_stringify [ctx_type_error_a] True)
     (CText sample_response) = Some 398"
  by (simp add: estimateTokenUsage_def sample_prompt_length sample_response_def)

lemma sample_cost: "calculateCallCost 398 = 2189 / 10000000"
  by (simp add: calculateCallCost_def)

lemma sample_parse:
  "parseStructuredResponse sample_json_parse (CText sample_response) =
     \<lparr>pr_patterns = Some [pattern_p1], pr_novel_insights = Some [],
      pr_cross_repo_correlations = None, pr_processing_notes = None\<rparr>"
proof -
  have "match_json_block sample_response = Some sample_response"
    by (simp add: match_json_block_def sample_response_def)
  then show ?thesis
    using parseStructuredResponse_text [of "CText sample_response" sample_response sample_json_parse]
    by (simp add: sample_json_parse_def or_list_def)
qed

lemma sample_call:
  assumes "callsMadeToday 0 now tr < 17"
  shows "analyzeBatchWithBudget 0 sample_stringify sample_json_parse sample_api now later
           [ctx_type_error_a] True tr =
         (Inr \<lparr>patterns_found = [pattern_p1], novel_insights = [], cross_repo_correlations = [],
               api_cost = 2189 / 10000000, analysis_time = later - now, analysis_tokens = 398\<rparr>,
          recordUsage \<lparr>tokens_used = 398, cost = 2189 / 10000000,
                       model = ''claude-3-haiku-20240307'', usage_timestamp = later,
                       batch_size = Suc 0\<rparr> tr)"
proof -
  have ok: "can_proceed (tracker_checkDailyBudget 0 now tr)"
    using assms by (simp add: tracker_checkDailyBudget_def DAILY_CALL_LIMIT_def)
  have api: "sample_api (createBatchAnalysisPrompt sample_stringify
               (optimizeForCostEfficiency [ctx_type_error_a]) True)
             = ApiResponse (CText sample_response # [])"
    by (simp add: sample_api_def)
  from analyzeBatchWithBudget_success
    [of 0 now tr sample_api sample_stringify "[ctx_type_error_a]" True
        "CText sample_response" "[]" sample_json_parse later] ok api
  show ?thesis
    by (simp add: optimizeForCostEfficiency_single sample_tokens sample_cost sample_parse
        or_list_def)
qed

lemma analyzeErrorPatterns_claude:
  assumes "depth \<noteq> Local_only_depth"
  shows "analyzeErrorPatterns rt now later elapsed batch depth cross srv =
     (case analyzeBatchWithBudget (rt_tz rt) (rt_stringify rt) (rt_json_parse rt)
             (rt_api rt) now later batch cross (claudeInterface srv)
      of (Inl error, tr') \<Rightarrow>
           (Tool_error ''Failed to analyze error patterns'' (message error),
            srv\<lparr>claudeInterface := tr'\<rparr>)
       | (Inr claudeAnalysis, tr') \<Rightarrow>
           (Claude_enhanced (patterns_found claudeAnalysis) (novel_insights claudeAnalysis)
              (cross_repo_correlations claudeAnalysis) (api_cost claudeAnalysis) True,
            srv\<lparr>claudeInterface := tr',
                intelligenceCache :=
                  cacheAnalysisResults (rt_digest rt) later
                    (Some (patterns_found claudeAnalysis))
                    (Some (novel_insights claudeAnalysis))
                    (intelligenceCache srv)\<rparr>))"
  using assms by (simp add: analyzeErrorPatterns_def truthy_object_def Let_def)

text \<open>Capturing one error never reaches the service: the usage log stays as it is.\<close>

lemma captureErrorContext_usage:
  "claudeInterface (snd (captureErrorContext rt now elapsed args srv)) = claudeInterface srv"
  by (simp add: captureErrorContext_def Let_def split: prod.splits)

lemma exhausted_calls:
  "callsMadeToday 0 1700001000000 (claudeInterface exhausted_server) = 17"
  by (simp add: callsMadeToday_def todayUsage_def exhausted_server_def new_server_def
      toDateString_def)

text \<open>
  C5 (budget exhaustion fallback), evaluated where the code departs from it. The log of
  the usage tracker holds 17 calls of today, the daily call limit, and a batch is analysed
  with depth \<open>claude_if_needed\<close>. The budget check that \<open>analyzeErrorPatterns\<close> consults
  is the scheduler's, which works on fixed figures and always allows a call; and the
  condition negates the returned object, which is truthy, so the fallback branch is taken
  for no state and no input. The call goes on to \<open>analyzeBatchWithBudget\<close>, whose own
  check refuses it before the service is called: whatever the service would answer, the
  tool returns the error "Failed to analyze error patterns" instead of the outcome
  \<open>local_fallback_budget_exceeded\<close> with cost 0, and the server state is unchanged.
\<close>

theorem budget_exhausted_no_fallback:
  "callsMadeToday 0 1700001000000 (claudeInterface exhausted_server) = DAILY_CALL_LIMIT
   \<and> \<not> can_proceed (tracker_checkDailyBudget 0 1700001000000 (claudeInterface exhausted_server))
   \<and> can_proceed (scheduler_checkDailyBudget sch)
   \<and> analyzeErrorPatterns (sample_runtime\<lparr>rt_api := api\<rparr>) 1700001000000 1700001002000 3
        [ctx_type_error_a] Claude_if_needed True exhausted_server
       = (Tool_error ''Failed to analyze error patterns''
            ''Daily budget exceeded. Used 17/17 calls'', exhausted_server)
   \<and> fst (analyzeErrorPatterns rt now later elapsed batch depth cross srv)
       \<noteq> Local_fallback_budget_exceeded ps status c"
proof -
  have a: "callsMadeToday 0 1700001000000 (claudeInterface exhausted_server) = DAILY_CALL_LIMIT"
    by (simp add: exhausted_calls DAILY_CALL_LIMIT_def)
  have b: "\<not> can_proceed (tracker_checkDailyBudget 0 1700001000000 (claudeInterface exhausted_server))"
    by (simp add: tracker_checkDailyBudget_def exhausted_calls DAILY_CALL_LIMIT_def)
  have s: "can_proceed (scheduler_checkDailyBudget sch)"
    by (simp add: scheduler_checkDailyBudget_def Let_def dailyBudgetLimit_def
        calculateTodaySpending_def)
  have e: "analyzeErrorPatterns (sample_runtime\<lparr>rt_api := api\<rparr>) 1700001000000 1700001002000 3
        [ctx_type_error_a] Claude_if_needed True exhausted_server
       = (Tool_error ''Failed to analyze error patterns''
            ''Daily budget exceeded. Used 17/17 calls'', exhausted_server)"
    by (simp add: analyzeErrorPatterns_claude analyzeBatchWithBudget_def Let_def
        tracker_checkDailyBudget_def exhausted_calls DAILY_CALL_LIMIT_def sample_runtime_def
        dec_17)
  have n: "fst (analyzeErrorPatterns rt now later elapsed batch depth cross srv)
       \<noteq> Local_fallback_budget_exceeded ps status c"
    by (auto simp: analyzeErrorPatterns_def truthy_object_def Let_def
        split: prod.splits sum.splits)
  from a b s e n show ?thesis by blast
qed

text \<open>
  C1 (at-most-once payment), evaluated where the code departs from it. The same batch is
  analysed twice with depth \<open>claude_if_needed\<close>, and the service answers both times with
  the pattern "p1". After the first call "p1" is in the cache. The second call does not
  look into the cache: it calls the service again, records a second usage entry of the
  same cost, reports that cost, and stores "p1" anew, with the date of the second call.
\<close>

theorem repeated_analysis_pays_again:
  "(let (r1, s1) = analyzeErrorPatterns sample_runtime 1700001000000 1700001002000 3
                     [ctx_type_error_a] Claude_if_needed True new_server;
        (r2, s2) = analyzeErrorPatterns sample_runtime 1700001060000 1700001062000 3
                     [ctx_type_error_a] Claude_if_needed True s1
    in r1 = Claude_enhanced [pattern_p1] [] [] (2189 / 10000000) True
     \<and> map_option cached_date (map_of (solutionCache (intelligenceCache s1)) ''p1'')
         = Some 1700001002000
     \<and> r2 = Claude_enhanced [pattern_p1] [] [] (2189 / 10000000) True
     \<and> map cost (usageLog (claudeInterface s2)) = [2189 / 10000000, 2189 / 10000000]
     \<and> map_option cached_date (map_of (solutionCache (intelligenceCache s2)) ''p1'')
         = Some 1700001062000)"
proof -
  let ?res = "\<lambda>now later. \<lparr>patterns_found = [pattern_p1], novel_insights = [],
      cross_repo_correlations = [], api_cost = 2189 / 10000000,
      analysis_time = later - now, analysis_tokens = 398::nat\<rparr>"
  let ?entry = "\<lambda>later. \<lparr>tokens_used = 398, cost = 2189 / 10000000,
      model = ''claude-3-haiku-20240307'', usage_timestamp = later, batch_size = Suc 0\<rparr>"
  let ?tr1 = "recordUsage (?entry 1700001002000) \<lparr>usageLog = []\<rparr>"
  let ?c1 = "cacheAnalysisResults sample_digest 1700001002000 (Some [pattern_p1]) (Some [])
               empty_cache"
  let ?s1 = "new_server\<lparr>claudeInterface := ?tr1, intelligenceCache := ?c1\<rparr>"
  let ?tr2 = "recordUsage (?entry 1700001062000) ?tr1"
  let ?c2 = "cacheAnalysisResults sample_digest 1700001062000 (Some [pattern_p1]) (Some []) ?c1"
  have rt: "rt_tz sample_runtime = 0" "rt_stringify sample_runtime = sample_stringify"
    "rt_json_parse sample_runtime = sample_json_parse" "rt_api sample_runtime = sample_api"
    "rt_digest sample_runtime = sample_digest"
    by (simp_all add: sample_runtime_def)
  have n0: "callsMadeToday 0 1700001000000 (claudeInterface new_server) < 17"
    by (simp add: callsMadeToday_def todayUsage_def new_server_def)
  have first: "analyzeErrorPatterns sample_runtime 1700001000000 1700001002000 3
                 [ctx_type_error_a] Claude_if_needed True new_server
               = (Claude_enhanced [pattern_p1] [] [] (2189 / 10000000) True, ?s1)"
    by (simp add: analyzeErrorPatterns_claude rt sample_call [OF n0])
       (simp add: new_server_def)
  have n1: "callsMadeToday 0 1700001060000 ?tr1 < 17"
    by (simp add: callsMadeToday_def todayUsage_def recordUsage_def toDateString_def)
  have second: "analyzeErrorPatterns sample_runtime 1700001060000 1700001062000 3
                 [ctx_type_error_a] Claude_if_needed True ?s1
               = (Claude_enhanced [pattern_p1] [] [] (2189 / 10000000) True,
                  ?s1\<lparr>claudeInterface := ?tr2, intelligenceCache := ?c2\<rparr>)"
    using sample_call [OF n1, of 1700001062000]
    by (simp add: analyzeErrorPatterns_claude rt)
  have pid: "pattern_id (solution_of_pattern sample_digest t pattern_p1) = ''p1''" for t
    by (simp add: solution_of_pattern_def pattern_p1_def)
  have stored: "map_of (solutionCache (cacheAnalysisResults sample_digest t (Some [pattern_p1])
                   (Some []) c)) ''p1'' = Some (solution_of_pattern sample_digest t pattern_p1)"
    for t c
    by (simp add: cacheAnalysisResults_def Let_def or_list_def solutionCache_cacheSolution pid)
  have date: "cached_date (solution_of_pattern sample_digest t pattern_p1) = t" for t
    by (simp add: solution_of_pattern_def)
  have log: "map cost (usageLog ?tr2) = [2189 / 10000000, 2189 / 10000000]"
    by (simp add: recordUsage_def)
  show ?thesis
    unfolding first prod.case Let_def second
    using stored date log by simp
qed


section \<open>Properties of the usage tracker\<close>

lemma fold_cost: "fold (\<lambda>log sum. sum + cost log) xs a = a + sum_list (map cost xs)"
  by (induction xs arbitrary: a) simp_all

lemma costToday_sum: "costToday tz now tr = sum_list (map cost (todayUsage tz now tr))"
  by (simp add: costToday_def fold_cost)

lemma toDateString_mono: "t \<le> t' \<Longrightarrow> toDateString tz t \<le> toDateString tz t'"
  by (simp add: toDateString_def zdiv_mono1)

lemma calculateCallCost_nonneg: "0 \<le> calculateCallCost n"
  by (simp add: calculateCallCost_def)

text \<open>A call leaves the log as it is or appends one entry, stamped \<open>later\<close>.\<close>

lemma analyzeBatchWithBudget_tracker:
  "snd (analyzeBatchWithBudget tz stringify json_parse api now later errorBatch cross tr) = tr
   \<or> (callsMadeToday tz now tr < DAILY_CALL_LIMIT
      \<and> (\<exists>n m b. snd (analyzeBatchWithBudget tz stringify json_parse api now later errorBatch cross tr)
             = recordUsage \<lparr>tokens_used = n, cost = calculateCallCost n, model = m,
                            usage_timestamp = later, batch_size = b\<rparr> tr))"
  by (auto simp: analyzeBatchWithBudget_def Let_def tracker_checkDailyBudget_def
      split: api_result.splits option.splits)

lemma tracker_inv_record:
  assumes inv: "tracker_inv tz t tr" and le: "t \<le> later"
    and room: "callsMadeToday tz t tr < DAILY_CALL_LIMIT"
  shows "tracker_inv tz later
           (recordUsage \<lparr>tokens_used = n, cost = calculateCallCost n, model = m,
                         usage_timestamp = later, batch_size = b\<rparr> tr)"
proof -
  let ?day = "\<lambda>e. toDateString tz (usage_timestamp e)"
  have old: "\<forall>e \<in> set (usageLog tr). usage_timestamp e \<le> t \<and> 0 \<le> cost e"
    and cnt: "\<And>d. length (filter (\<lambda>e. ?day e = d) (usageLog tr)) \<le> DAILY_CALL_LIMIT"
    using inv by (simp_all add: tracker_inv_def)
  have today: "length (filter (\<lambda>e. ?day e = toDateString tz later) (usageLog tr))
                 < DAILY_CALL_LIMIT"
  proof (cases "toDateString tz later = toDateString tz t")
    case True
    with room show ?thesis by (simp add: callsMadeToday_def todayUsage_def)
  next
    case False
    with toDateString_mono [OF le, of tz] have lt: "toDateString tz t < toDateString tz later"
      by simp
    have "\<forall>e \<in> set (usageLog tr). ?day e \<noteq> toDateString tz later"
    proof
      fix e assume "e \<in> set (usageLog tr)"
      with old have "usage_timestamp e \<le> t" by blast
      from toDateString_mono [OF this, of tz] lt show "?day e \<noteq> toDateString tz later"
        by simp
    qed
    then have "filter (\<lambda>e. ?day e = toDateString tz later) (usageLog tr) = []"
      by (simp add: filter_empty_conv)
    then show ?thesis by (simp add: DAILY_CALL_LIMIT_def)
  qed
  have "\<forall>d. length (filter (\<lambda>e. ?day e = d)
             (usageLog tr @ [\<lparr>tokens_used = n, cost = calculateCallCost n, model = m,
                               usage_timestamp = later, batch_size = b\<rparr>])) \<le> DAILY_CALL_LIMIT"
  proof
    fix d
    show "length (filter (\<lambda>e. ?day e = d)
             (usageLog tr @ [\<lparr>tokens_used = n, cost = calculateCallCost n, model = m,
                               usage_timestamp = later, batch_size = b\<rparr>])) \<le> DAILY_CALL_LIMIT"
      using today cnt [of d] by (cases "toDateString tz later = d") auto
  qed
  moreover have "\<forall>e \<in> set (usageLog tr). usage_timestamp e \<le> later \<and> 0 \<le> cost e"
    using old le by auto
  ultimately show ?thesis
    by (simp add: tracker_inv_def recordUsage_def calculateCallCost_nonneg)
qed

lemma tracker_inv_wait:
  assumes "tracker_inv tz t tr" "t \<le> t'"
  shows "tracker_inv tz t' tr"
  using assms by (auto simp: tracker_inv_def)

lemma tracker_reachable_inv:
  assumes "tracker_reachable tz stringify json_parse t tr"
  shows "tracker_inv tz t tr"
  using assms
proof (induction rule: tracker_reachable.induct)
  case (start t)
  show ?case by (simp add: tracker_inv_def)
next
  case (wait t tr t')
  then show ?case using tracker_inv_wait by blast
next
  case (call t tr later api errorBatch crossRepoContext)
  from analyzeBatchWithBudget_tracker
    [of tz stringify json_parse api t later errorBatch crossRepoContext tr]
  show ?case
  proof
    assume "snd (analyzeBatchWithBudget tz stringify json_parse api t later
                  errorBatch crossRepoContext tr) = tr"
    with call.IH call.hyps(2) show ?thesis
      using tracker_inv_wait by simp
  next
    assume "callsMadeToday tz t tr < DAILY_CALL_LIMIT
      \<and> (\<exists>n m b. snd (analyzeBatchWithBudget tz stringify json_parse api t later
                        errorBatch crossRepoContext tr)
             = recordUsage \<lparr>tokens_used = n, cost = calculateCallCost n, model = m,
                            usage_timestamp = later, batch_size = b\<rparr> tr)"
    with call.IH call.hyps(2) show ?thesis
      using tracker_inv_record by auto
  qed
qed

lemma tracker_inv_calls:
  assumes "tracker_inv tz t tr"
  shows "callsMadeToday tz now tr \<le> DAILY_CALL_LIMIT"
  using assms by (simp add: tracker_inv_def callsMadeToday_def todayUsage_def)

lemma tracker_inv_cost:
  assumes "tracker_inv tz t tr"
  shows "0 \<le> costToday tz now tr"
proof -
  have "\<forall>x \<in> set (map cost (todayUsage tz now tr)). 0 \<le> x"
    using assms by (auto simp: tracker_inv_def todayUsage_def)
  then show ?thesis
    unfolding costToday_sum by (intro sum_list_nonneg) auto
qed

lemma tracker_inv_next_day:
  assumes "tracker_inv tz t tr" "toDateString tz t < toDateString tz later"
  shows "todayUsage tz later tr = []"
proof -
  have "\<forall>e \<in> set (usageLog tr). toDateString tz (usage_timestamp e) \<noteq> toDateString tz later"
  proof
    fix e assume "e \<in> set (usageLog tr)"
    with assms(1) have "usage_timestamp e \<le> t" by (simp add: tracker_inv_def)
    from toDateString_mono [OF this, of tz] assms(2)
    show "toDateString tz (usage_timestamp e) \<noteq> toDateString tz later" by simp
  qed
  then show ?thesis by (simp add: todayUsage_def filter_empty_conv)
qed

lemma todayUsage_same_day:
  "toDateString tz later = toDateString tz t \<Longrightarrow> todayUsage tz later tr = todayUsage tz t tr"
  by (simp add: todayUsage_def)

text \<open>
  C2, as amended (budget monotonicity). In every state that calls of
  \<open>analyzeBatchWithBudget\<close>, made one after the other, can reach from the empty log: the
  number of calls recorded for the current local calendar day (the day of
  \<open>toDateString\<close>) is at most \<open>DAILY_CALL_LIMIT\<close> = 17, before and after a further call; the
  cost spent today is not negative; a further call that ends on the same local day does
  not lower the cost spent today nor the number of calls; while no call is made within
  the day, both stay as they are; and once the local date has advanced, both are 0.
\<close>

theorem daily_usage_monotone_and_call_bounded:
  assumes "tracker_reachable tz stringify json_parse t tr" and "t \<le> later"
  shows "callsMadeToday tz t tr \<le> DAILY_CALL_LIMIT
       \<and> 0 \<le> costToday tz t tr
       \<and> (let tr' = snd (analyzeBatchWithBudget tz stringify json_parse api t later
                            errorBatch cross tr)
          in callsMadeToday tz later tr' \<le> DAILY_CALL_LIMIT
           \<and> (toDateString tz later = toDateString tz t \<longrightarrow>
                costToday tz t tr \<le> costToday tz later tr'
                \<and> callsMadeToday tz t tr \<le> callsMadeToday tz later tr'))
       \<and> (toDateString tz later = toDateString tz t \<longrightarrow>
            costToday tz later tr = costToday tz t tr
            \<and> callsMadeToday tz later tr = callsMadeToday tz t tr)
       \<and> (toDateString tz t < toDateString tz later \<longrightarrow>
            costToday tz later tr = 0 \<and> callsMadeToday tz later tr = 0)"
proof -
  let ?tr' = "snd (analyzeBatchWithBudget tz stringify json_parse api t later errorBatch cross tr)"
  have inv: "tracker_inv tz t tr"
    by (rule tracker_reachable_inv [OF assms(1)])
  have "tracker_reachable tz stringify json_parse later ?tr'"
    by (rule tracker_reachable.call [OF assms])
  then have inv': "tracker_inv tz later ?tr'"
    by (rule tracker_reachable_inv)
  have a: "callsMadeToday tz t tr \<le> DAILY_CALL_LIMIT"
    by (rule tracker_inv_calls [OF inv])
  have b: "0 \<le> costToday tz t tr"
    by (rule tracker_inv_cost [OF inv])
  have c: "callsMadeToday tz later ?tr' \<le> DAILY_CALL_LIMIT"
    by (rule tracker_inv_calls [OF inv'])
  have d: "toDateString tz later = toDateString tz t \<longrightarrow>
             costToday tz t tr \<le> costToday tz later ?tr'
             \<and> callsMadeToday tz t tr \<le> callsMadeToday tz later ?tr'"
  proof
    assume same: "toDateString tz later = toDateString tz t"
    from analyzeBatchWithBudget_tracker [of tz stringify json_parse api t later errorBatch cross tr]
    show "costToday tz t tr \<le> costToday tz later ?tr'
          \<and> callsMadeToday tz t tr \<le> callsMadeToday tz later ?tr'"
    proof
      assume "?tr' = tr"
      with todayUsage_same_day [OF same, of tr] show ?thesis
        by (simp add: costToday_sum callsMadeToday_def)
    next
      assume "callsMadeToday tz t tr < DAILY_CALL_LIMIT
        \<and> (\<exists>n m b. ?tr' = recordUsage \<lparr>tokens_used = n, cost = calculateCallCost n, model = m,
                            usage_timestamp = later, batch_size = b\<rparr> tr)"
      then obtain n m b where r: "?tr' = recordUsage \<lparr>tokens_used = n,
          cost = calculateCallCost n, model = m, usage_timestamp = later, batch_size = b\<rparr> tr"
        by blast
      show ?thesis
        unfolding r using same calculateCallCost_nonneg [of n]
        by (simp add: costToday_sum callsMadeToday_def todayUsage_def recordUsage_def)
    qed
  qed
  have e: "toDateString tz later = toDateString tz t \<longrightarrow>
            costToday tz later tr = costToday tz t tr
            \<and> callsMadeToday tz later tr = callsMadeToday tz t tr"
    using todayUsage_same_day [of tz later t tr]
    by (simp add: costToday_sum callsMadeToday_def)
  have f: "toDateString tz t < toDateString tz later \<longrightarrow>
            costToday tz later tr = 0 \<and> callsMadeToday tz later tr = 0"
    using tracker_inv_next_day [OF inv]
    by (simp add: costToday_sum callsMadeToday_def)
  show ?thesis
    unfolding Let_def using a b c d e f by blast
qed

lemma sample_call_tokens:
  assumes "callsMadeToday tz now tr < 17"
    and "estimateTokenUsage (createBatchAnalysisPrompt sample_stringify [e] True)
           (CText sample_response) = Some T"
  shows "analyzeBatchWithBudget tz sample_stringify sample_json_parse sample_api now later
           [e] True tr =
         (Inr \<lparr>patterns_found = [pattern_p1], novel_insights = [], cross_repo_correlations = [],
               api_cost = calculateCallCost T, analysis_time = later - now, analysis_tokens = T\<rparr>,
          recordUsage \<lparr>tokens_used = T, cost = calculateCallCost T,
                       model = ''claude-3-haiku-20240307'', usage_timestamp = later,
                       batch_size = Suc 0\<rparr> tr)"
proof -
  have ok: "can_proceed (tracker_checkDailyBudget tz now tr)"
    using assms(1) by (simp add: tracker_checkDailyBudget_def DAILY_CALL_LIMIT_def)
  have api: "sample_api (createBatchAnalysisPrompt sample_stringify
               (optimizeForCostEfficiency [e]) True)
             = ApiResponse (CText sample_response # [])"
    by (simp add: sample_api_def)
  from analyzeBatchWithBudget_success
    [of tz now tr sample_api sample_stringify "[e]" True
        "CText sample_response" "[]" sample_json_parse later] ok api
  show ?thesis
    by (simp add: optimizeForCostEfficiency_single assms(2) sample_parse or_list_def)
qed

lemma long_prompt_length:
  "length (createBatchAnalysisPrompt sample_stringify [ctx_long] True) = 601486"
proof -
  have "length long_message = 600000"
    by (simp add: long_message_def)
  then show ?thesis
    by (simp add: createBatchAnalysisPrompt_def error_block_def nl_def dec_Suc_0
        ctx_long_def stack_or_empty_def sample_stringify_def)
qed

lemma long_tokens:
  "estimateTokenUsage (createBatchAnalysisPrompt sample_stringify [ctx_long] True)
     (CText sample_response) = Some 150392"
  by (simp add: estimateTokenUsage_def long_prompt_length sample_response_def)

lemma same_day_calls_log:
  "n \<le> 17 \<Longrightarrow>
   same_day_calls n =
     \<lparr>usageLog = replicate n
        \<lparr>tokens_used = 150392, cost = calculateCallCost 150392,
         model = ''claude-3-haiku-20240307'', usage_timestamp = 1700001000000,
         batch_size = Suc 0\<rparr>\<rparr>"
proof (induction n)
  case 0
  show ?case by simp
next
  case (Suc n)
  let ?E = "\<lparr>tokens_used = 150392, cost = calculateCallCost 150392,
         model = ''claude-3-haiku-20240307'', usage_timestamp = 1700001000000,
         batch_size = Suc 0\<rparr>"
  from Suc have log: "same_day_calls n = \<lparr>usageLog = replicate n ?E\<rparr>" by simp
  have "callsMadeToday 0 1700001000000 (same_day_calls n) = n"
    by (simp add: log callsMadeToday_def todayUsage_def)
  with Suc.prems have room: "callsMadeToday 0 1700001000000 (same_day_calls n) < 17"
    by simp
  have "same_day_calls (Suc n) = recordUsage ?E (same_day_calls n)"
    by (simp add: sample_call_tokens [OF room long_tokens])
  also have "\<dots> = \<lparr>usageLog = replicate n ?E @ [?E]\<rparr>"
    by (simp add: log recordUsage_def)
  also have "replicate n ?E @ [?E] = replicate (Suc n) ?E"
    by (simp add: replicate_append_same)
  finally show ?case .
qed

lemma same_day_calls_reachable:
  "tracker_reachable 0 sample_stringify sample_json_parse 1700001000000 (same_day_calls n)"
proof (induction n)
  case 0
  show ?case by (simp add: tracker_reachable.start)
next
  case (Suc n)
  from tracker_reachable.call [OF Suc, of 1700001000000 sample_api "[ctx_long]" True]
  show ?case by simp
qed

theorem daily_usage_monotone_and_call_bounded_witness:
  "tracker_reachable 0 sample_stringify sample_json_parse 1700001000000 (same_day_calls 3)
   \<and> (1700001000000 :: nat) \<le> 1700090000000
   \<and> toDateString 0 1700001000000 < toDateString 0 1700090000000
   \<and> callsMadeToday 0 1700001000000 (same_day_calls 3) = 3
   \<and> callsMadeToday 0 1700090000000 (same_day_calls 3) = 0
   \<and> costToday 0 1700090000000 (same_day_calls 3) = 0"
proof -
  have r: "tracker_reachable 0 sample_stringify sample_json_parse 1700001000000 (same_day_calls 3)"
    by (rule same_day_calls_reachable)
  have le: "(1700001000000 :: nat) \<le> 1700090000000" by simp
  have d: "toDateString 0 1700001000000 < toDateString 0 1700090000000"
    by (simp add: toDateString_def)
  have n: "callsMadeToday 0 1700001000000 (same_day_calls 3) = 3"
    by (simp add: same_day_calls_log callsMadeToday_def todayUsage_def)
  from daily_usage_monotone_and_call_bounded [OF r le] d
  have "costToday 0 1700090000000 (same_day_calls 3) = 0
        \<and> callsMadeToday 0 1700090000000 (same_day_calls 3) = 0"
    by blast
  with r le d n show ?thesis by blast
qed

text \<open>
  The claim as stated fails in two ways. The day is the local one: with the clock of the
  process one hour ahead of UTC, a call recorded at 22:30 UTC counts for today until
  23:00 UTC and no longer at 23:15 UTC, so the cost spent today falls back to 0 within
  one UTC day. And the ceiling that is enforced is the number of calls, not the cost:
  seventeen calls on one day, each for an error with a message of 600000 characters, are
  all admitted, and the cost spent that day, 17 times 0.0827156, exceeds the daily
  ceiling of 25/30 together with five emergency calls at the estimate of 0.05 each.
\<close>

theorem daily_spend_counterexample:
  "toDateString 0 1700001000000 = toDateString 0 1700003700000
   \<and> tracker_reachable 60 sample_stringify sample_json_parse 1700001000000
        (snd (analyzeBatchWithBudget 60 sample_stringify sample_json_parse sample_api
                1700001000000 1700001000000 [ctx_type_error_a] True \<lparr>usageLog = []\<rparr>))
   \<and> costToday 60 1700003700000
        (snd (analyzeBatchWithBudget 60 sample_stringify sample_json_parse sample_api
                1700001000000 1700001000000 [ctx_type_error_a] True \<lparr>usageLog = []\<rparr>))
     < costToday 60 1700001000000
        (snd (analyzeBatchWithBudget 60 sample_stringify sample_json_parse sample_api
                1700001000000 1700001000000 [ctx_type_error_a] True \<lparr>usageLog = []\<rparr>))
   \<and> tracker_reachable 0 sample_stringify sample_json_parse 1700001000000 (same_day_calls 17)
   \<and> callsMadeToday 0 1700001000000 (same_day_calls 17) = 17
   \<and> 25 / 30 + 5 * 0.05 < costToday 0 1700001000000 (same_day_calls 17)"
proof -
  let ?tr = "snd (analyzeBatchWithBudget 60 sample_stringify sample_json_parse sample_api
                1700001000000 1700001000000 [ctx_type_error_a] True \<lparr>usageLog = []\<rparr>)"
  have utc: "toDateString 0 1700001000000 = toDateString 0 1700003700000"
    by (simp add: toDateString_def)
  have "tracker_reachable 60 sample_stringify sample_json_parse 1700001000000 \<lparr>usageLog = []\<rparr>"
    by (rule tracker_reachable.start)
  from tracker_reachable.call [OF this, of 1700001000000 sample_api "[ctx_type_error_a]" True]
  have reach: "tracker_reachable 60 sample_stringify sample_json_parse 1700001000000 ?tr"
    by simp
  have room: "callsMadeToday 60 1700001000000 \<lparr>usageLog = []\<rparr> < 17"
    by (simp add: callsMadeToday_def todayUsage_def)
  have tr: "?tr = \<lparr>usageLog = [\<lparr>tokens_used = 398, cost = calculateCallCost 398,
                model = ''claude-3-haiku-20240307'', usage_timestamp = 1700001000000,
                batch_size = Suc 0\<rparr>]\<rparr>"
    by (simp add: sample_call_tokens [OF room sample_tokens] recordUsage_def)
  have before: "costToday 60 1700001000000 ?tr = 2189 / 10000000"
    by (simp add: tr costToday_sum todayUsage_def sample_cost)
  have after: "costToday 60 1700003700000 ?tr = 0"
    by (simp add: tr costToday_sum todayUsage_def toDateString_def)
  have n17: "callsMadeToday 0 1700001000000 (same_day_calls 17) = 17"
    by (simp add: same_day_calls_log callsMadeToday_def todayUsage_def)
  have "costToday 0 1700001000000 (same_day_calls 17) = 17 * calculateCallCost 150392"
    by (simp add: same_day_calls_log costToday_sum todayUsage_def sum_list_replicate)
  then have over: "25 / 30 + 5 * 0.05 < costToday 0 1700001000000 (same_day_calls 17)"
    by (simp add: calculateCallCost_def)
  from utc reach before after same_day_calls_reachable [of 17] n17 over
  show ?thesis by simp
qed

end
